theory Spec2Isabelle
  imports Complex_Main
begin

section \<open>Values read from the sheets\<close>

text \<open>
  The pipeline of \<^verbatim>\<open>combined_excel_to_pinecone.py\<close> reads sheets of a workbook with pandas,
  merges their rows into one record per employee, derives totals, renders one document per
  employee and uploads the documents under one namespace per employee.

  The source writes its column names, dictionary keys and messages in Korean. Here every
  such string is written in Latin letters, syllable by syllable (Revised Romanization with
  the final consonants kept apart): \<open>sabeon\<close> is the employee number, \<open>yeokhal\<close> the role,
  \<open>boheomsa\<close> the insurer, \<open>geumaek\<close> an amount, \<open>hwansu\<close> a clawback. Two keys that differ
  in the source differ here. The roman numeral two is written \<open>II\<close>, a circled one \<open>(1)\<close>,
  and the emoji of the messages are left out.

  A cell of a data frame, after \<^verbatim>\<open>safe_read_sheet\<close> has replaced NaN by None, is one of:
  None, an integer, a float, a text, or a timestamp (kept as the text that \<^verbatim>\<open>str\<close> gives).
  Floats are modelled as real numbers: rounding errors of the binary format are outside
  the model.
\<close>

datatype cell = CNone | CInt int | CFloat real | CStr string | CDate string

datatype error =
    KeyError string
  | ValueError
  | TypeError
  | ZeroDivisionError
  | IndexError
  | AttributeError
  | SecurityError

subsection \<open>\<^verbatim>\<open>str()\<close>\<close>

fun str_nat :: "nat \<Rightarrow> string" where
  "str_nat n =
     (if n < 10 then [''0123456789'' ! n]
      else str_nat (n div 10) @ [''0123456789'' ! (n mod 10)])"

declare str_nat.simps [simp del]

definition str_int :: "int \<Rightarrow> string" where
  "str_int i = (if i < 0 then CHR ''-'' # str_nat (nat (- i)) else str_nat (nat i))"

text \<open>
  The decimal digits after the point of a float, at most \<open>n\<close> of them. \<^verbatim>\<open>str\<close> of a float
  gives the shortest decimal that reads back as the same float; with floats as reals this
  is the decimal expansion itself, which the model prints up to 17 digits. An integral float
  prints as its digits followed by \<open>.0\<close> (below \<open>10^16\<close>, where Python changes to the
  exponent form, which the model does not follow).
\<close>

fun frac_digits :: "nat \<Rightarrow> real \<Rightarrow> string" where
  "frac_digits 0 r = []"
| "frac_digits (Suc n) r =
     (if r = 0 then []
      else (''0123456789'' ! nat \<lfloor>r * 10\<rfloor>) # frac_digits n (r * 10 - of_int \<lfloor>r * 10\<rfloor>))"

definition str_float :: "real \<Rightarrow> string" where
  "str_float x =
     (let a = \<bar>x\<bar>; ip = \<lfloor>a\<rfloor>; fp = a - of_int ip
      in (if x < 0 then ''-'' else '''') @ str_nat (nat ip) @ ''.'' @
         (if fp = 0 then ''0'' else frac_digits 17 fp))"

fun py_str :: "cell \<Rightarrow> string" where
  "py_str CNone = ''None''"
| "py_str (CInt i) = str_int i"
| "py_str (CFloat x) = str_float x"
| "py_str (CStr s) = s"
| "py_str (CDate s) = s"

subsection \<open>Truth value, \<^verbatim>\<open>pd.notna\<close>, equality\<close>

fun truthy :: "cell \<Rightarrow> bool" where
  "truthy CNone = False"
| "truthy (CInt i) = (i \<noteq> 0)"
| "truthy (CFloat x) = (x \<noteq> 0)"
| "truthy (CStr s) = (s \<noteq> [])"
| "truthy (CDate s) = True"

definition py_or :: "cell \<Rightarrow> cell \<Rightarrow> cell" where
  "py_or a b = (if truthy a then a else b)"

fun notna :: "cell \<Rightarrow> bool" where
  "notna CNone = False"
| "notna _ = True"

text \<open>
  Python's \<^verbatim>\<open>==\<close> on cells: an integer equals the float of the same value. No cell is a
  NaN; for a NaN outside the sheets see \<open>same_key\<close> and \<open>differs\<close> below.
\<close>

fun py_eq :: "cell \<Rightarrow> cell \<Rightarrow> bool" where
  "py_eq CNone CNone = True"
| "py_eq (CInt a) (CInt b) = (a = b)"
| "py_eq (CInt a) (CFloat y) = (of_int a = y)"
| "py_eq (CFloat x) (CInt b) = (x = of_int b)"
| "py_eq (CFloat x) (CFloat y) = (x = y)"
| "py_eq (CStr s) (CStr t) = (s = t)"
| "py_eq (CDate s) (CDate t) = (s = t)"
| "py_eq _ _ = False"

subsection \<open>\<^verbatim>\<open>int()\<close> and \<^verbatim>\<open>float()\<close>\<close>

text \<open>
  A text is read as a number when it is, between spaces, an optional sign and decimal
  digits (for \<^verbatim>\<open>float\<close> with an optional point). Python also reads the exponent form,
  \<open>inf\<close>, \<open>nan\<close>, digits grouped by underscores and other white space around the number;
  those texts are a \<open>ValueError\<close> here.
\<close>

definition digit_val :: "char \<Rightarrow> nat option" where
  "digit_val c =
     (let n = (of_char c :: nat) in if 48 \<le> n \<and> n \<le> 57 then Some (n - 48) else None)"

fun digits_val :: "nat \<Rightarrow> string \<Rightarrow> nat option" where
  "digits_val acc [] = Some acc"
| "digits_val acc (c # cs) =
     (case digit_val c of None \<Rightarrow> None | Some d \<Rightarrow> digits_val (acc * 10 + d) cs)"

definition strip :: "string \<Rightarrow> string" where
  "strip s = rev (dropWhile (\<lambda>c. c = CHR '' '') (rev (dropWhile (\<lambda>c. c = CHR '' '') s)))"

fun split_sign :: "string \<Rightarrow> bool \<times> string" where
  "split_sign [] = (False, [])"
| "split_sign (c # cs) =
     (if c = CHR ''-'' then (True, cs) else if c = CHR ''+'' then (False, cs) else (False, c # cs))"

definition int_of_text :: "string \<Rightarrow> int option" where
  "int_of_text s =
     (case split_sign (strip s) of (neg, body) \<Rightarrow>
        if body = [] then None
        else (case digits_val 0 body of
                None \<Rightarrow> None
              | Some n \<Rightarrow> Some (if neg then - int n else int n)))"

definition float_of_text :: "string \<Rightarrow> real option" where
  "float_of_text s =
     (case split_sign (strip s) of (neg, body) \<Rightarrow>
        (let ip = takeWhile (\<lambda>c. c \<noteq> CHR ''.'') body;
             fp = drop 1 (dropWhile (\<lambda>c. c \<noteq> CHR ''.'') body)
         in if ip = [] \<and> fp = [] then None
            else (case (digits_val 0 ip, digits_val 0 fp) of
                    (Some a, Some b) \<Rightarrow>
                      (let v = real a + real b / 10 ^ length fp
                       in Some (if neg then - v else v))
                  | _ \<Rightarrow> None)))"

fun py_int :: "cell \<Rightarrow> error + int" where
  "py_int CNone = Inl TypeError"
| "py_int (CInt i) = Inr i"
| "py_int (CFloat x) = Inr (if 0 \<le> x then \<lfloor>x\<rfloor> else \<lceil>x\<rceil>)"
| "py_int (CStr s) = (case int_of_text s of None \<Rightarrow> Inl ValueError | Some i \<Rightarrow> Inr i)"
| "py_int (CDate s) = Inl TypeError"

fun py_float :: "cell \<Rightarrow> error + real" where
  "py_float CNone = Inl TypeError"
| "py_float (CInt i) = Inr (of_int i)"
| "py_float (CFloat x) = Inr x"
| "py_float (CStr s) = (case float_of_text s of None \<Rightarrow> Inl ValueError | Some x \<Rightarrow> Inr x)"
| "py_float (CDate s) = Inl TypeError"

subsection \<open>Rows and dictionaries\<close>

text \<open>
  A row of a data frame maps the column names of its sheet to cells; a Python dict is an
  association list in insertion order, with distinct keys. A sheet is the list of its rows;
  a sheet that is missing or cannot be read is the empty list, since \<^verbatim>\<open>safe_read_sheet\<close>
  catches the error and returns an empty data frame.
\<close>

type_synonym row = "(string \<times> cell) list"
type_synonym dict = "(string \<times> cell) list"

text \<open>\<^verbatim>\<open>row[k]\<close>, \<^verbatim>\<open>row.get(k)\<close>, \<^verbatim>\<open>row.get(k, 0) or 0\<close> and \<^verbatim>\<open>k in df.columns\<close>.\<close>

definition row_item :: "row \<Rightarrow> string \<Rightarrow> error + cell" where
  "row_item row k = (case map_of row k of None \<Rightarrow> Inl (KeyError k) | Some v \<Rightarrow> Inr v)"

definition row_get :: "row \<Rightarrow> string \<Rightarrow> cell" where
  "row_get row k = (case map_of row k of None \<Rightarrow> CNone | Some v \<Rightarrow> v)"

definition row_get_or0 :: "row \<Rightarrow> string \<Rightarrow> cell" where
  "row_get_or0 row k =
     py_or (case map_of row k of None \<Rightarrow> CInt 0 | Some v \<Rightarrow> v) (CInt 0)"

definition in_columns :: "string \<Rightarrow> row \<Rightarrow> bool" where
  "in_columns k row = (map_of row k \<noteq> None)"

text \<open>\<^verbatim>\<open>float(row.get(k, 0) or 0)\<close> and \<^verbatim>\<open>int(row.get(k, 0) or 0)\<close>, as entries of a dict.\<close>

definition float_or0 :: "row \<Rightarrow> string \<Rightarrow> error + cell" where
  "float_or0 row k = map_sum id CFloat (py_float (row_get_or0 row k))"

definition int_or0 :: "row \<Rightarrow> string \<Rightarrow> error + cell" where
  "int_or0 row k = map_sum id CInt (py_int (row_get_or0 row k))"

text \<open>\<^verbatim>\<open>str(x) if pd.notna(x) else None\<close>.\<close>

definition str_if_notna :: "cell \<Rightarrow> cell" where
  "str_if_notna c = (if notna c then CStr (py_str c) else CNone)"

text \<open>
  A dict literal evaluates its values in order; the first one that raises ends the
  evaluation with that exception.
\<close>

fun mk_dict :: "(string \<times> (error + 'a)) list \<Rightarrow> error + (string \<times> 'a) list" where
  "mk_dict [] = Inr []"
| "mk_dict ((k, Inl e) # kvs) = Inl e"
| "mk_dict ((k, Inr v) # kvs) =
     (case mk_dict kvs of Inl e \<Rightarrow> Inl e | Inr d \<Rightarrow> Inr ((k, v) # d))"

text \<open>\<^verbatim>\<open>d[k] = v\<close>: the value of an existing key is replaced in place, a new key is appended.\<close>

fun dict_set :: "string \<Rightarrow> 'a \<Rightarrow> (string \<times> 'a) list \<Rightarrow> (string \<times> 'a) list" where
  "dict_set k v [] = [(k, v)]"
| "dict_set k v ((k', v') # d) =
     (if k' = k then (k, v) # d else (k', v') # dict_set k v d)"

definition dict_get :: "(string \<times> 'a) list \<Rightarrow> string \<Rightarrow> 'a \<Rightarrow> 'a" where
  "dict_get d k dflt = (case map_of d k of None \<Rightarrow> dflt | Some v \<Rightarrow> v)"

definition num_of :: "cell \<Rightarrow> real" where
  "num_of c = (case c of CInt i \<Rightarrow> of_int i | CFloat x \<Rightarrow> x | _ \<Rightarrow> 0)"

section \<open>Documents and the upload\<close>

text \<open>
  A value of a document's metadata is a scalar, a nested dict, or a float NaN. No cell of a
  sheet is NaN (line 201 replaces it by None), but a document handed to the upload may
  carry one. NaN is unequal to itself, and a dict finds a NaN key only by the identity of
  the object; so a NaN carries a number that names its object. A document is the dict
  \<^verbatim>\<open>{'id', 'doc_type', 'text', 'metadata'}\<close>; a vector is what is handed to the index.
\<close>

datatype pval = Scalar cell | Nested dict | NaN nat

record document =
  doc_id :: string
  doc_type :: string
  doc_text :: string
  metadata :: "(string \<times> pval) list"

record 'e vector =
  vec_id :: string
  vec_values :: 'e
  vec_metadata :: "(string \<times> pval) list"

text \<open>
  What the upload has done so far: the calls of \<^verbatim>\<open>index.upsert\<close> that succeeded, as pairs of
  namespace and vectors, and the counter \<^verbatim>\<open>total_uploaded\<close>. (The estimated cost is only
  printed and is left out.) A run ends in a state and, when an exception left
  \<^verbatim>\<open>upload_documents\<close>, that exception.
\<close>

record 'e upload_state =
  upserted :: "(string \<times> 'e vector list) list"
  total_uploaded :: nat

definition init_upload :: "'e upload_state" where
  "init_upload = \<lparr>upserted = [], total_uploaded = 0\<rparr>"

text \<open>
  \<^verbatim>\<open>if k not in d: d[k] = []\<close> followed by \<^verbatim>\<open>d[k].append(x)\<close>, for a dict whose keys are
  cells: the key is looked up with \<^verbatim>\<open>==\<close>, and a new key goes to the end.
\<close>

fun group_add :: "cell \<Rightarrow> 'a \<Rightarrow> (cell \<times> 'a list) list \<Rightarrow> (cell \<times> 'a list) list" where
  "group_add k x [] = [(k, [x])]"
| "group_add k x ((k', xs) # g) =
     (if py_eq k' k then (k', xs @ [x]) # g else (k', xs) # group_add k x g)"

text \<open>
  A key of \<^verbatim>\<open>docs_by_employee\<close>: a hashable metadata value, that is a scalar or a NaN. A
  dict as key raises \<open>TypeError\<close>. The dict finds a key that is the same object or equal:
  for scalars that is \<^verbatim>\<open>==\<close>, for a NaN the same object only.
\<close>

datatype key = KCell cell | KNaN nat

fun key_of :: "pval \<Rightarrow> error + key" where
  "key_of (Scalar c) = Inr (KCell c)"
| "key_of (NaN i) = Inr (KNaN i)"
| "key_of (Nested d) = Inl TypeError"

fun same_key :: "key \<Rightarrow> key \<Rightarrow> bool" where
  "same_key (KCell a) (KCell b) = py_eq a b"
| "same_key (KNaN i) (KNaN j) = (i = j)"
| "same_key _ _ = False"

text \<open>\<^verbatim>\<open>str\<close> of a key, for the name of the namespace.\<close>

fun key_str :: "key \<Rightarrow> string" where
  "key_str (KCell c) = py_str c"
| "key_str (KNaN i) = ''nan''"

text \<open>
  \<^verbatim>\<open>if sabon not in docs_by_employee: docs_by_employee[sabon] = []\<close> followed by
  \<^verbatim>\<open>docs_by_employee[sabon].append(doc)\<close>.
\<close>

fun docs_add :: "key \<Rightarrow> document \<Rightarrow> (key \<times> document list) list \<Rightarrow> (key \<times> document list) list"
where
  "docs_add k doc [] = [(k, [doc])]"
| "docs_add k doc ((k', docs) # g) =
     (if same_key k' k then (k', docs @ [doc]) # g else (k', docs) # docs_add k doc g)"

text \<open>
  Lines 884-889. \<^verbatim>\<open>doc['metadata']['sabeon']\<close> raises \<open>KeyError\<close> when the key is missing.
\<close>

fun group_docs ::
  "document list \<Rightarrow> (key \<times> document list) list \<Rightarrow> error + (key \<times> document list) list"
where
  "group_docs [] g = Inr g"
| "group_docs (doc # docs) g =
     (case map_of (metadata doc) ''sabeon'' of
        None \<Rightarrow> Inl (KeyError ''sabeon'')
      | Some v \<Rightarrow>
          (case key_of v of
             Inl e \<Rightarrow> Inl e
           | Inr sabon \<Rightarrow> group_docs docs (docs_add sabon doc g)))"

text \<open>
  \<^verbatim>\<open>generate_embeddings_batch\<close>: the call of the embedding service is the parameter
  \<open>create\<close>, which returns the embeddings or raises.
\<close>

definition generate_embeddings_batch ::
  "(string list \<Rightarrow> error + 'e list) \<Rightarrow> string list \<Rightarrow> error + 'e list"
where
  "generate_embeddings_batch create texts =
     (if length texts > 2048 then Inl ValueError else create texts)"

text \<open>
  \<^verbatim>\<open>doc_sabon != sabon\<close> of line 927, where \<open>sabon\<close> is a key of \<^verbatim>\<open>docs_by_employee\<close>. A NaN
  differs from every value, itself included; a dict differs from every key, none being a
  dict.
\<close>

fun differs :: "pval \<Rightarrow> key \<Rightarrow> bool" where
  "differs (Scalar a) (KCell b) = (\<not> py_eq a b)"
| "differs (Scalar a) (KNaN j) = True"
| "differs (NaN i) k = True"
| "differs (Nested d) k = True"

text \<open>
  Lines 924-944: the vectors of one batch. The mismatch raises; the exception is inside no
  \<^verbatim>\<open>try\<close>, so it leaves \<^verbatim>\<open>upload_documents\<close>.
\<close>

fun build_vectors :: "key \<Rightarrow> (document \<times> 'e) list \<Rightarrow> error + 'e vector list" where
  "build_vectors sabon [] = Inr []"
| "build_vectors sabon ((doc, embedding) # rest) =
     (case map_of (metadata doc) ''sabeon'' of
        None \<Rightarrow> Inl (KeyError ''sabeon'')
      | Some doc_sabon \<Rightarrow>
          if differs doc_sabon sabon then Inl SecurityError
          else (case map_of (metadata doc) ''sawonmyeong'' of
                  None \<Rightarrow> Inl (KeyError ''sawonmyeong'')
                | Some name \<Rightarrow>
                    (case build_vectors sabon rest of
                       Inl e \<Rightarrow> Inl e
                     | Inr vectors \<Rightarrow>
                         Inr (\<lparr>vec_id = doc_id doc,
                               vec_values = embedding,
                               vec_metadata =
                                 [(''sabeon'', doc_sabon),
                                  (''sawonmyeong'', name),
                                  (''doc_type'', Scalar (CStr (doc_type doc)))] @
                                 filter (\<lambda>(k, v). k \<notin> {''sabeon'', ''sawonmyeong'', ''doc_type''}
                                                  \<and> v \<noteq> Scalar CNone)
                                   (metadata doc)\<rparr> # vectors))))"

text \<open>
  One pass of the loop of line 908: the embeddings (an exception there is caught and the
  batch skipped), the vectors, the upsert (an exception there is caught and printed). The
  store is the parameter \<open>upsert\<close>, which tells whether the call succeeded.
\<close>

definition upload_batch ::
  "(string list \<Rightarrow> error + 'e list) \<Rightarrow> ('e vector list \<Rightarrow> string \<Rightarrow> bool) \<Rightarrow>
   key \<Rightarrow> document list \<Rightarrow> 'e upload_state \<Rightarrow> 'e upload_state \<times> error option"
where
  "upload_batch create upsert sabon batch st =
     (case generate_embeddings_batch create (map doc_text batch) of
        Inl e \<Rightarrow> (st, None)
      | Inr embeddings \<Rightarrow>
          (case build_vectors sabon (zip batch embeddings) of
             Inl e \<Rightarrow> (st, Some e)
           | Inr vectors \<Rightarrow>
               (let namespace = ''employee_'' @ key_str sabon
                in if upsert vectors namespace
                   then (st\<lparr>upserted := upserted st @ [(namespace, vectors)],
                            total_uploaded := total_uploaded st + length vectors\<rparr>, None)
                   else (st, None))))"

fun upload_batches ::
  "(string list \<Rightarrow> error + 'e list) \<Rightarrow> ('e vector list \<Rightarrow> string \<Rightarrow> bool) \<Rightarrow>
   key \<Rightarrow> document list list \<Rightarrow> 'e upload_state \<Rightarrow> 'e upload_state \<times> error option"
where
  "upload_batches create upsert sabon [] st = (st, None)"
| "upload_batches create upsert sabon (batch # later) st =
     (case upload_batch create upsert sabon batch st of
        (st', Some e) \<Rightarrow> (st', Some e)
      | (st', None) \<Rightarrow> upload_batches create upsert sabon later st')"

text \<open>The slices \<^verbatim>\<open>xs[i:i + n]\<close> for \<^verbatim>\<open>i in range(0, len(xs), n)\<close>, with \<open>n\<close> positive.\<close>

fun batches :: "nat \<Rightarrow> 'a list \<Rightarrow> 'a list list" where
  "batches n xs = (if n = 0 \<or> xs = [] then [] else take n xs # batches n (drop n xs))"

declare batches.simps [simp del]

text \<open>
  The body of the loop of line 903 for one employee. \<^verbatim>\<open>employee_docs[0]\<close> raises on an
  empty list; \<^verbatim>\<open>range\<close> raises \<open>ValueError\<close> for the step 0 and is empty for a
  negative step.
\<close>

definition upload_employee ::
  "(string list \<Rightarrow> error + 'e list) \<Rightarrow> ('e vector list \<Rightarrow> string \<Rightarrow> bool) \<Rightarrow> int \<Rightarrow>
   key \<Rightarrow> document list \<Rightarrow> 'e upload_state \<Rightarrow> 'e upload_state \<times> error option"
where
  "upload_employee create upsert batch_size sabon employee_docs st =
     (if employee_docs = [] then (st, Some IndexError)
      else if batch_size = 0 then (st, Some ValueError)
      else if batch_size < 0 then (st, None)
      else upload_batches create upsert sabon (batches (nat batch_size) employee_docs) st)"

text \<open>The loop of line 903 over the employees, from the dict of line 884.\<close>

fun upload_groups ::
  "(string list \<Rightarrow> error + 'e list) \<Rightarrow> ('e vector list \<Rightarrow> string \<Rightarrow> bool) \<Rightarrow> int \<Rightarrow>
   (key \<times> document list) list \<Rightarrow> 'e upload_state \<Rightarrow> 'e upload_state \<times> error option"
where
  "upload_groups create upsert batch_size [] st = (st, None)"
| "upload_groups create upsert batch_size ((sabon, employee_docs) # later) st =
     (case upload_employee create upsert batch_size sabon employee_docs st of
        (st', Some e) \<Rightarrow> (st', Some e)
      | (st', None) \<Rightarrow> upload_groups create upsert batch_size later st')"

text \<open>
  \<^verbatim>\<open>upload_documents\<close>. The statistics printed at line 894 divide by the number of
  employees, which raises \<open>ZeroDivisionError\<close> for an empty list of documents.
  \<^verbatim>\<open>verify_upload\<close> only prints.
\<close>

definition upload_documents ::
  "(string list \<Rightarrow> error + 'e list) \<Rightarrow> ('e vector list \<Rightarrow> string \<Rightarrow> bool) \<Rightarrow>
   document list \<Rightarrow> int \<Rightarrow> 'e upload_state \<times> error option"
where
  "upload_documents create upsert documents batch_size =
     (case group_docs documents [] of
        Inl e \<Rightarrow> (init_upload, Some e)
      | Inr docs_by_employee \<Rightarrow>
          if docs_by_employee = [] then (init_upload, Some ZeroDivisionError)
          else upload_groups create upsert batch_size docs_by_employee init_upload)"

section \<open>Employee records\<close>

text \<open>
  An entry of one of the lists of an employee is a dict literal with fixed keys. The keys
  that later code reads are fields of a record, with the type the literal gives them
  (\<^verbatim>\<open>float(...)\<close> yields a float, \<^verbatim>\<open>str(...)\<close> a text); the other keys are kept as they
  are built, in the order of the source, in the field \<open>..._rest\<close>. The literal is evaluated
  as a whole by \<^const>\<open>mk_dict\<close>, so that the first conversion that raises decides the
  exception.
\<close>

definition other_keys :: "string list \<Rightarrow> dict \<Rightarrow> dict" where
  "other_keys ks d = filter (\<lambda>(k, v). k \<notin> set ks) d"

definition float_or0_real :: "row \<Rightarrow> string \<Rightarrow> error + real" where
  "float_or0_real row k = py_float (row_get_or0 row k)"

record profile =
  pr_sawonmyeong :: cell
  pr_jikjong :: cell
  pr_sosok :: cell
  pr_sosokgyeongro :: cell
  pr_wichokgubun :: cell
  pr_wichokil :: cell
  pr_rest :: "(string \<times> pval) list"

record commission =
  c_boheomsa :: cell
  c_jigeupsusuryo_hapgye :: real
  c_rest :: dict

record override =
  o_yeokhal :: string
  o_obeoraideu_jongryu :: cell
  o_obeoraideu_daesangja :: cell
  o_FC_sabeon :: string
  o_FC_daesangja :: cell
  o_obeoraideu_geumaek :: real
  o_suryeongja_sabeon :: "string option"
  o_suryeongja_ireum :: "cell option"
  o_rest :: dict

record policy =
  p_jigeup_gye :: real
  p_rest :: dict

type_synonym perf = "(string \<times> pval) list"

text \<open>
  A value of \<^verbatim>\<open>additional_allowances\<close> is one dict with the key \<open>geumaek\<close> (the amount), or
  the list of the retention entries.
\<close>

record allowance_single =
  a_geumaek :: real
  a_rest :: dict

datatype allowance = Single allowance_single | Many "dict list"

record clawback =
  cb_hwansuyuhyeong :: string
  cb_hwansugeumaek :: real
  cb_rest :: dict

text \<open>
  \<^verbatim>\<open>EmployeeDataStructure\<close>. The profile is \<open>None\<close> for the empty dict of \<^verbatim>\<open>__init__\<close>; the
  summary maps a name to a number (the counts are integers, the rest floats).
\<close>

record employee =
  sabon :: string
  employee_profile :: "profile option"
  commission_contracts :: "commission list"
  override_records :: "override list"
  policy_contracts :: "policy list"
  performance_records :: "perf list"
  additional_allowances :: "(string \<times> allowance) list"
  clawback_records :: "clawback list"
  summary_financials :: "(string \<times> real) list"

definition new_employee :: employee where
  "new_employee =
     \<lparr>sabon = '''', employee_profile = None, commission_contracts = [],
      override_records = [], policy_contracts = [], performance_records = [],
      additional_allowances = [], clawback_records = [], summary_financials = []\<rparr>"

text \<open>
  \<^verbatim>\<open>self.employees\<close>: a dict from the employee number to the record, in insertion order.
\<close>

type_synonym employees = "(string \<times> employee) list"

definition has_employee :: "string \<Rightarrow> employees \<Rightarrow> bool" where
  "has_employee k emps = (k \<in> set (map fst emps))"

text \<open>
  \<^verbatim>\<open>if sabon not in self.employees: self.employees[sabon] = EmployeeDataStructure();
  self.employees[sabon].sabon = sabon\<close>
\<close>

definition ensure_employee :: "string \<Rightarrow> employees \<Rightarrow> employees" where
  "ensure_employee k emps =
     (if has_employee k emps then emps else emps @ [(k, new_employee\<lparr>sabon := k\<rparr>)])"

text \<open>A change of the record stored under the key \<open>k\<close>.\<close>

fun update_employee :: "string \<Rightarrow> (employee \<Rightarrow> employee) \<Rightarrow> employees \<Rightarrow> employees" where
  "update_employee k f [] = []"
| "update_employee k f ((k', emp) # emps) =
     (if k' = k then (k', f emp) # emps else (k', emp) # update_employee k f emps)"

text \<open>
  \<^verbatim>\<open>for _, row in df.iterrows()\<close>: the rows change the employees one after the other. A row
  that raises ends the loop; what it did before raising stays done, since the records are
  changed in place.
\<close>

fun for_rows ::
  "(row \<Rightarrow> employees \<Rightarrow> employees \<times> error option) \<Rightarrow> row list \<Rightarrow> employees \<Rightarrow>
   employees \<times> error option"
where
  "for_rows body [] emps = (emps, None)"
| "for_rows body (row # rows) emps =
     (case body row emps of
        (emps', Some e) \<Rightarrow> (emps', Some e)
      | (emps', None) \<Rightarrow> for_rows body rows emps')"

section \<open>The aggregator\<close>

subsection \<open>\<^verbatim>\<open>process_individual_statements\<close>\<close>

definition profile_of_row :: "row \<Rightarrow> profile" where
  "profile_of_row row =
     \<lparr>pr_sawonmyeong = row_get row ''sawonmyeong'',
      pr_jikjong = row_get row ''jikjong'',
      pr_sosok = row_get row ''sosok'',
      pr_sosokgyeongro = row_get row ''sosokgyeongro'',
      pr_wichokgubun = row_get row ''wichokgubun'',
      pr_wichokil = str_if_notna (row_get row ''wichokil''),
      pr_rest =
        [(''Career_Path'', Scalar (row_get row ''Career Path'')),
         (''yeongeopgaesiil'', Scalar (str_if_notna (row_get row ''yeongeopgaesiil''))),
         (''toesailja'', Scalar (str_if_notna (row_get row ''toesailja''))),
         (''bujigeupyeobu'', Scalar (row_get row ''bujigeupyeobu'')),
         (''gyejwabeonho'', Scalar (str_if_notna (row_get row ''gyejwabeonho''))),
         (''eunhaeng'', Scalar (row_get row ''eunhaeng'')),
         (''magamwol'', Scalar (CStr (py_str (row_get row ''magamwol'')))),
         (''jojik'', Nested
            [(''hoesa'', row_get row ''hyeonjae sosokgyeongro_hoesa''),
             (''gubun'', row_get row ''hyeonjae sosokgyeongro_gubun''),
             (''bonbu'', row_get row ''hyeonjae sosokgyeongro_bonbu''),
             (''saeopdan'', row_get row ''hyeonjae sosokgyeongro_saeopdan''),
             (''Agency'', row_get row ''hyeonjae sosokgyeongro_Agency''),
             (''tim'', row_get row ''hyeonjae sosokgyeongro_tim'')])]\<rparr>"

definition summary_of_row :: "row \<Rightarrow> error + (string \<times> real) list" where
  "summary_of_row row = mk_dict
     [(''choejongjigeupaek'', float_or0_real row ''choejongjigeupaek''),
      (''keomisyeongye'', float_or0_real row ''keomisyeongye''),
      (''FC_keomisyeongye'', float_or0_real row ''FC keomisyeongye''),
      (''FCgyeyakmojip_keomisyeon'', float_or0_real row ''FCgyeyakmojip keomisyeonII''),
      (''hyeongeumsichaek'', float_or0_real row ''hyeongeumsichaek''),
      (''FCgyeyakyuji_keomisyeon'', float_or0_real row ''FCgyeyakyuji mich seobiseu keomisyeonII''),
      (''obeoraideugye'', float_or0_real row ''obeoraideugye''),
      (''BM_obeoraideu'', float_or0_real row ''BM obeoraideuII''),
      (''MD_obeoraideu'', float_or0_real row ''MD obeoraideuII''),
      (''saeopdanjang_obeoraideu'', float_or0_real row ''saeopdanjang obeoraideuII''),
      (''jisajang_obeoraideu'', float_or0_real row ''jisajang obeoraideuII''),
      (''yuchija_obeoraideu'', float_or0_real row ''yuchija obeoraideuII''),
      (''gongtongkeomisyeongye'', float_or0_real row ''gongtongkeomisyeongye''),
      (''Account_Balance_dangwoljeokripaek'', float_or0_real row ''Account Balance dangwoljeokripaek''),
      (''Account_Balance_jigeupaek'', float_or0_real row ''Account Balance jigeupaek''),
      (''iwol_bosu_hwansugeumaek'', float_or0_real row ''iwol bosu hwansugeumaek''),
      (''mihwansu_yubogeumaek'', float_or0_real row ''mihwansu yubogeumaek''),
      (''gitakeomisyeongye'', float_or0_real row ''gitakeomisyeongye''),
      (''jisajigeup'', float_or0_real row ''jisajigeup''),
      (''gwasegye'', float_or0_real row ''gwasegye''),
      (''gongjegye'', float_or0_real row ''gongjegye''),
      (''sodeukse'', float_or0_real row ''sodeukse''),
      (''juminse'', float_or0_real row ''juminse''),
      (''woncheonse'', float_or0_real row ''woncheonse''),
      (''geunrosanjaeboheomryo'', float_or0_real row ''geunrosanjaeboheomryo''),
      (''goyongboheomryo'', float_or0_real row ''goyongboheomryo'')]"

definition individual_statement_row :: "row \<Rightarrow> employees \<Rightarrow> employees \<times> error option" where
  "individual_statement_row row emps =
     (case row_item row ''sabeon'' of
        Inl e \<Rightarrow> (emps, Some e)
      | Inr c \<Rightarrow>
          (let sabon = py_str c;
               emps1 = (if has_employee sabon emps then emps
                        else emps @ [(sabon, new_employee)]);
               emps2 = update_employee sabon
                         (\<lambda>emp. emp\<lparr>sabon := sabon,
                                    employee_profile := Some (profile_of_row row)\<rparr>) emps1
           in case summary_of_row row of
                Inl e \<Rightarrow> (emps2, Some e)
              | Inr sf \<Rightarrow>
                  (update_employee sabon (\<lambda>emp. emp\<lparr>summary_financials := sf\<rparr>) emps2,
                   None)))"

definition process_individual_statements ::
  "row list \<Rightarrow> employees \<Rightarrow> employees \<times> error option"
where
  "process_individual_statements df emps = for_rows individual_statement_row df emps"

subsection \<open>\<^verbatim>\<open>process_commission_contracts\<close>\<close>

definition commission_of_row :: "row \<Rightarrow> error + commission" where
  "commission_of_row row =
     (case mk_dict
        [(''magamwol'', Inr (CStr (py_str (row_get row ''magamwol'')))),
         (''boheomsa'', Inr (row_get row ''boheomsa'')),
         (''jeunggwonbeonho'', Inr (CStr (py_str (row_get row ''jeunggwonbeonho'')))),
         (''gyeyakil'', Inr (str_if_notna (row_get row ''gyeyakil''))),
         (''gyeyaksangtae'', Inr (row_get row ''cheorigyeyaksangtae'')),
         (''napiphoecha'', int_or0 row ''cheorinapiphoecha''),
         (''jigeuprojik'', Inr (row_get row ''jigeuprojik'')),
         (''napipbangbeop'', Inr (row_get row ''napipbangbeop'')),
         (''seonjigeup_bungeup'', Inr (row_get row ''seonjigeup/bungeup'')),
         (''gyujeong'', Inr (row_get row ''gyujeong'')),
         (''baebunyul'', float_or0 row ''baebunyul''),
         (''boheomryo'', float_or0 row ''boheomryo''),
         (''MFYC'', float_or0 row ''MFYC''),
         (''AFYC'', float_or0 row ''AFYC''),
         (''boheomsahwansan'', float_or0 row ''boheomsahwansan''),
         (''jigeupyul'', float_or0 row ''jigeupyul''),
         (''jigeupsusuryo_mojip'', float_or0 row ''[jigeupsusuryo] mojip''),
         (''jigeupsusuryo_yuji'', float_or0 row ''[jigeupsusuryo] yuji''),
         (''jigeupsusuryo_jadongcha'', float_or0 row ''[jigeupsusuryo] jadongcha''),
         (''jigeupsusuryo_ilban'', float_or0 row ''[jigeupsusuryo] ilban''),
         (''jigeupsusuryo_hapgye'', float_or0 row ''[jigeupsusuryo] hapgye''),
         (''suipsusuryo_seonggwa'', float_or0 row ''[suipsusuryo] seonggwa''),
         (''suipsusuryo_gyeyakgwanri'', float_or0 row ''[suipsusuryo] gyeyakgwanri''),
         (''suipsusuryo_sugeum'', float_or0 row ''[suipsusuryo] sugeum''),
         (''suipsusuryo_jadongcha'', float_or0 row ''[suipsusuryo] jadongcha''),
         (''suipsusuryo_ilban'', float_or0 row ''[suipsusuryo] ilban''),
         (''suipsusuryo_hapgye'', float_or0 row ''[suipsusuryo] hapgye''),
         (''sangpumgun1'', Inr (row_get row ''sangpumgun1'')),
         (''sangpumgun2'', Inr (row_get row ''sangpumgun2'')),
         (''sangpummyeong'', Inr (row_get row ''sangpummyeong'')),
         (''gyeyakja'', Inr (row_get row ''gyeyakja'')),
         (''piboheomja'', Inr (row_get row ''piboheomja'')),
         (''gyochapanmae'', Inr (row_get row ''gyochapanmae'')),
         (''oebuigwan'', Inr (row_get row ''oebuigwan''))]
      of Inl e \<Rightarrow> Inl e
       | Inr d \<Rightarrow>
           Inr \<lparr>c_boheomsa = dict_get d ''boheomsa'' CNone,
                c_jigeupsusuryo_hapgye = num_of (dict_get d ''jigeupsusuryo_hapgye'' CNone),
                c_rest = other_keys [''boheomsa'', ''jigeupsusuryo_hapgye''] d\<rparr>)"

definition commission_row :: "row \<Rightarrow> employees \<Rightarrow> employees \<times> error option" where
  "commission_row row emps =
     (case row_item row ''jigeupsawonbeonho'' of
        Inl e \<Rightarrow> (emps, Some e)
      | Inr c \<Rightarrow>
          (let sabon = py_str c;
               emps1 = ensure_employee sabon emps
           in case commission_of_row row of
                Inl e \<Rightarrow> (emps1, Some e)
              | Inr contract \<Rightarrow>
                  (update_employee sabon
                     (\<lambda>emp. emp\<lparr>commission_contracts :=
                                   commission_contracts emp @ [contract]\<rparr>) emps1,
                   None)))"

definition process_commission_contracts ::
  "row list \<Rightarrow> employees \<Rightarrow> employees \<times> error option"
where
  "process_commission_contracts df emps = for_rows commission_row df emps"

subsection \<open>\<^verbatim>\<open>process_override_records\<close>\<close>

text \<open>The dict literal of lines 345-374, value by value.\<close>

definition override_literal :: "row \<Rightarrow> (string \<times> (error + cell)) list" where
  "override_literal row =
     [(''magamwol'', Inr (CStr (py_str (row_get row ''magamwol'')))),
      (''yeokhal'', Inr (CStr ''receiver'')),
      (''obeoraideu_jongryu'', Inr (row_get row ''[obeoraideu] jongryu'')),
      (''obeoraideu_daesangja'', Inr (row_get row ''[obeoraideu] daesangja'')),
      (''obeoraideu_gyujeong'', Inr (row_get row ''[obeoraideu] gyujeong'')),
      (''FC_sabeon'', Inr (CStr (py_str (row_get row ''[FC] daesangjasabeon'')))),
      (''FC_daesangja'', Inr (row_get row ''[FC] daesangja'')),
      (''FC_ipsachawol'', int_or0 row ''[FC] ipsachawol''),
      (''FC_gyujeong'', Inr (row_get row ''[FC] gyujeong'')),
      (''boheomsa'', Inr (row_get row ''boheomsa'')),
      (''jeunggwonbeonho'', Inr (CStr (py_str (row_get row ''jeunggwonbeonho'')))),
      (''gyeyakil'', Inr (str_if_notna (row_get row ''gyeyakil''))),
      (''gyeyaksangtae'', Inr (row_get row ''cheorigyeyaksangtae'')),
      (''napiphoecha'', int_or0 row ''cheorinapiphoecha''),
      (''gyesanbangsik'', Inr (row_get row ''gyesanbangsik'')),
      (''napipbangbeop'', Inr (row_get row ''napipbangbeop'')),
      (''boheomryo'', float_or0 row ''boheomryo''),
      (''MFYC'', float_or0 row ''MFYC''),
      (''AFYC'', float_or0 row ''AFYC''),
      (''LPkeomisyeon'', float_or0 row ''LPkeomisyeon''),
      (''jigeupyul'', float_or0 row ''[jigeupsusuryo] jigeupyul''),
      (''obeoraideu_geumaek'', float_or0 row ''[jigeupsusuryo] obeoraideu''),
      (''suipsusuryo_hapgye'', float_or0 row ''[suipsusuryo] hapgye''),
      (''sangpumgun1'', Inr (row_get row ''sangpumgun1'')),
      (''sangpumgun2'', Inr (row_get row ''sangpumgun2'')),
      (''sangpummyeong'', Inr (row_get row ''sangpummyeong'')),
      (''gyeyakja'', Inr (row_get row ''gyeyakja'')),
      (''piboheomja'', Inr (row_get row ''piboheomja''))]"

definition override_of_row :: "row \<Rightarrow> error + override" where
  "override_of_row row =
     (case mk_dict (override_literal row)
      of Inl e \<Rightarrow> Inl e
       | Inr d \<Rightarrow>
           Inr \<lparr>o_yeokhal = py_str (dict_get d ''yeokhal'' CNone),
                o_obeoraideu_jongryu = dict_get d ''obeoraideu_jongryu'' CNone,
                o_obeoraideu_daesangja = dict_get d ''obeoraideu_daesangja'' CNone,
                o_FC_sabeon = py_str (dict_get d ''FC_sabeon'' CNone),
                o_FC_daesangja = dict_get d ''FC_daesangja'' CNone,
                o_obeoraideu_geumaek = num_of (dict_get d ''obeoraideu_geumaek'' CNone),
                o_suryeongja_sabeon = None,
                o_suryeongja_ireum = None,
                o_rest = other_keys [''yeokhal'', ''obeoraideu_jongryu'', ''obeoraideu_daesangja'',
                           ''FC_sabeon'', ''FC_daesangja'', ''obeoraideu_geumaek''] d\<rparr>)"

text \<open>
  Lines 338-390. The entry of the receiver is appended before \<^verbatim>\<open>row['[FC] daesangjasabeon']\<close>
  is read, so a sheet without that column raises after the first append. The entry of the
  FC is a copy with the role \<open>fc\<close> and the number and name of the receiver.
\<close>

definition override_row :: "row \<Rightarrow> employees \<Rightarrow> employees \<times> error option" where
  "override_row row emps =
     (case row_item row ''[obeoraideu] daesangjasabeon'' of
        Inl e \<Rightarrow> (emps, Some e)
      | Inr c \<Rightarrow>
          (let receiver_sabon = py_str c;
               emps1 = ensure_employee receiver_sabon emps
           in case override_of_row row of
                Inl e \<Rightarrow> (emps1, Some e)
              | Inr override \<Rightarrow>
                  (let emps2 = update_employee receiver_sabon
                                 (\<lambda>emp. emp\<lparr>override_records :=
                                               override_records emp @ [override]\<rparr>) emps1
                   in case row_item row ''[FC] daesangjasabeon'' of
                        Inl e \<Rightarrow> (emps2, Some e)
                      | Inr fc \<Rightarrow>
                          (let fc_sabon = py_str fc;
                               emps3 = ensure_employee fc_sabon emps2;
                               fc_override =
                                 override\<lparr>o_yeokhal := ''fc'',
                                          o_suryeongja_sabeon := Some receiver_sabon,
                                          o_suryeongja_ireum :=
                                            Some (row_get row ''[obeoraideu] daesangja'')\<rparr>
                           in (update_employee fc_sabon
                                 (\<lambda>emp. emp\<lparr>override_records :=
                                               override_records emp @ [fc_override]\<rparr>) emps3,
                               None)))))"

definition process_override_records ::
  "row list \<Rightarrow> employees \<Rightarrow> employees \<times> error option"
where
  "process_override_records df emps = for_rows override_row df emps"

subsection \<open>\<^verbatim>\<open>process_policy_contracts\<close>\<close>

definition policy_of_row :: "row \<Rightarrow> error + policy" where
  "policy_of_row row =
     (case mk_dict
        [(''magamwol'', Inr (CStr (py_str (row_get row ''magamwol'')))),
         (''sosok'', Inr (row_get row ''sosok'')),
         (''boheomsa'', Inr (row_get row ''boheomsa'')),
         (''jeunggwonbeonho'', Inr (CStr (py_str (row_get row ''jeunggwonbeonho'')))),
         (''gyeyakilja'', Inr (str_if_notna (row_get row ''gyeyakilja''))),
         (''napipbangbeop'', Inr (row_get row ''napip\<newline>bangbeop'')),
         (''chohoeboheomryo'', float_or0 row ''chohoeboheomryo''),
         (''CMIP'', float_or0 row ''CMIP''),
         (''sangpummyeong'', Inr (row_get row ''sangpummyeong'')),
         (''gyeyakja'', Inr (row_get row ''gyeyakja'')),
         (''piboheomja'', Inr (row_get row ''piboheomja'')),
         (''napipgigan'', Inr (row_get row ''napipgigan'')),
         (''jigeupsichaek_beopin'', float_or0 row ''jigeupsichaek\<newline>_beopin''),
         (''jigeupsichaek_sayongin'', float_or0 row ''jigeupsichaek\<newline>_sayongin''),
         (''jigeup_gye'', float_or0 row ''jigeup gye''),
         (''bigo'', Inr (row_get row ''bigo''))]
      of Inl e \<Rightarrow> Inl e
       | Inr d \<Rightarrow>
           Inr \<lparr>p_jigeup_gye = num_of (dict_get d ''jigeup_gye'' CNone),
                p_rest = other_keys [''jigeup_gye''] d\<rparr>)"

definition policy_row :: "row \<Rightarrow> employees \<Rightarrow> employees \<times> error option" where
  "policy_row row emps =
     (case row_item row ''sabeon'' of
        Inl e \<Rightarrow> (emps, Some e)
      | Inr c \<Rightarrow>
          (let sabon = py_str c;
               emps1 = ensure_employee sabon emps
           in case policy_of_row row of
                Inl e \<Rightarrow> (emps1, Some e)
              | Inr policy \<Rightarrow>
                  (update_employee sabon
                     (\<lambda>emp. emp\<lparr>policy_contracts := policy_contracts emp @ [policy]\<rparr>) emps1,
                   None)))"

definition process_policy_contracts ::
  "row list \<Rightarrow> employees \<Rightarrow> employees \<times> error option"
where
  "process_policy_contracts df emps = for_rows policy_row df emps"

subsection \<open>\<^verbatim>\<open>process_performance_records\<close>\<close>

text \<open>
  One entry for each of the three number columns that the row fills. The role is the name
  of the column without \<open>sabeon\<close>. Nothing in the literal can raise.
\<close>

definition perf_of_row :: "string \<Rightarrow> row \<Rightarrow> perf" where
  "perf_of_row role row =
     [(''yeokhal'', Scalar (CStr role)),
      (''wonmojipLP'', Scalar (row_get row ''wonmojipLP'')),
      (''sugeumLP'', Scalar (row_get row ''sugeumLP'')),
      (''sugeumjasosok'', Nested
         [(''sosok1'', row_get row ''sugeumjasosok1''),
          (''sosok2'', row_get row ''sugeumjasosok2''),
          (''sosok3'', row_get row ''sugeumjasosok3''),
          (''sosok4'', row_get row ''sugeumjasosok4''),
          (''sosok5'', row_get row ''sugeumjasosok5''),
          (''sosok6'', row_get row ''sugeumjasosok6'')]),
      (''mojipLP'', Scalar (row_get row ''mojipLP'')),
      (''boheomsa'', Scalar (row_get row ''boheomsa'')),
      (''saengsonbogubun'', Scalar (row_get row ''saengsonbogubun'')),
      (''sangpumgun1'', Scalar (row_get row ''sangpumgun1'')),
      (''sangpumgun2'', Scalar (row_get row ''sangpumgun2'')),
      (''jeunggwonbeonho'', Scalar (str_if_notna (row_get row ''jeunggwonbeonho''))),
      (''gyeyakilja'', Scalar (str_if_notna (row_get row ''gyeyakilja''))),
      (''gyeyaksangtae'', Scalar (row_get row ''gyeyaksangtae'')),
      (''gyeyaksangsesangtae'', Scalar (row_get row ''gyeyaksangsesangtae'')),
      (''sangtaebyeongyeongil'', Scalar (str_if_notna (row_get row ''sangtaebyeongyeongil'')))]"

definition perf_field :: "string \<times> string \<Rightarrow> row \<Rightarrow> employees \<Rightarrow> employees" where
  "perf_field fr row emps =
     (case fr of (field, role) \<Rightarrow>
        if in_columns field row \<and> notna (row_get row field)
        then (let sabon = py_str (row_get row field);
                  emps1 = ensure_employee sabon emps
              in update_employee sabon
                   (\<lambda>emp. emp\<lparr>performance_records :=
                                 performance_records emp @ [perf_of_row role row]\<rparr>) emps1)
        else emps)"

definition perf_row :: "row \<Rightarrow> employees \<Rightarrow> employees \<times> error option" where
  "perf_row row emps =
     (fold (\<lambda>fr. perf_field fr row)
        [(''sugeumLPsabeon'', ''sugeumLP''), (''mojipLPsabeon'', ''mojipLP''),
         (''wonmojipFCsabeon'', ''wonmojipFC'')] emps,
      None)"

text \<open>The whole function is inside \<^verbatim>\<open>try\<close>: an exception is printed and the function returns.\<close>

definition process_performance_records :: "row list \<Rightarrow> employees \<Rightarrow> employees" where
  "process_performance_records df emps = fst (for_rows perf_row df emps)"

subsection \<open>\<^verbatim>\<open>process_additional_allowances\<close>\<close>

text \<open>
  The four sheets with one amount per employee share their loop: the row counts when the
  number column exists and is filled; the record is made if needed, then the dict is built
  (which may raise) and stored under the category, replacing what was there.
\<close>

definition single_of_dict :: "dict \<Rightarrow> allowance_single" where
  "single_of_dict d =
     \<lparr>a_geumaek = num_of (dict_get d ''geumaek'' CNone), a_rest = other_keys [''geumaek''] d\<rparr>"

definition allowance_row ::
  "string \<Rightarrow> string \<Rightarrow> (row \<Rightarrow> error + dict) \<Rightarrow> row \<Rightarrow> employees \<Rightarrow> employees \<times> error option"
where
  "allowance_row column category build row emps =
     (if in_columns column row \<and> notna (row_get row column)
      then (let sabon = py_str (row_get row column);
                emps1 = ensure_employee sabon emps
            in case build row of
                 Inl e \<Rightarrow> (emps1, Some e)
               | Inr d \<Rightarrow>
                   (update_employee sabon
                      (\<lambda>emp. emp\<lparr>additional_allowances :=
                                    dict_set category (Single (single_of_dict d))
                                      (additional_allowances emp)\<rparr>) emps1,
                    None))
      else (emps, None))"

definition sichaek2_dict :: "row \<Rightarrow> error + dict" where
  "sichaek2_dict row = mk_dict
     [(''geumaek'', float_or0 row ''jigeupaek''),
      (''bigo'', Inr (row_get row ''bigo''))]"

definition sonboEXT_dict :: "row \<Rightarrow> error + dict" where
  "sonboEXT_dict row = mk_dict
     [(''geumaek'', float_or0 row ''sonbosichaek Ext''),
      (''bigo'', Inr (row_get row ''bigo''))]"

definition sinipIP_dict :: "row \<Rightarrow> error + dict" where
  "sinipIP_dict row = mk_dict
     [(''geumaek'', float_or0 row ''jigeupaek''),
      (''mojipeopjeok'', float_or0 row ''mojip(hwansan)eopjeok''),
      (''jigeupdaesangaek'', float_or0 row ''jigeupdaesangaek'')]"

definition MGRsangsaeng_dict :: "row \<Rightarrow> error + dict" where
  "MGRsangsaeng_dict row = mk_dict
     [(''geumaek'', float_or0 row ''hwalseonghwa jiwongeum''),
      (''chong_mojipeopjeok'', float_or0 row ''chong mojipeopjeok\<newline>(saeng,sonbo)''),
      (''sonbomojipeopjeok'', float_or0 row ''sonbomojipeopjeok((1))''),
      (''jigeupyul'', float_or0 row ''jigeupyul(%)'')]"

definition retention_of_row :: "row \<Rightarrow> error + dict" where
  "retention_of_row row = mk_dict
     [(''boheomsa'', Inr (row_get row ''boheomsa'')),
      (''jeunggwonbeonho'', Inr (str_if_notna (row_get row ''jeungbeon''))),
      (''gyeyakil'', Inr (str_if_notna (row_get row ''gyeyakil''))),
      (''hoecha'', int_or0 row ''hoecha''),
      (''sangpummyeong'', Inr (row_get row ''sangpummyeong'')),
      (''chugajigeupyul'', float_or0 row ''chugajigeupyul''),
      (''jigeupaek'', float_or0 row ''jigeupaek''),
      (''bigo'', Inr (row_get row ''bigo''))]"

text \<open>
  Lines 587-589: the list of the category is made on first use and the entry appended. A
  value that is not a list has no \<^verbatim>\<open>append\<close>.
\<close>

definition append_retention :: "dict \<Rightarrow> employee \<Rightarrow> error + employee" where
  "append_retention retention emp =
     (case map_of (additional_allowances emp) ''13hoechayuji'' of
        None \<Rightarrow>
          Inr (emp\<lparr>additional_allowances :=
                     dict_set ''13hoechayuji'' (Many [retention]) (additional_allowances emp)\<rparr>)
      | Some (Many xs) \<Rightarrow>
          Inr (emp\<lparr>additional_allowances :=
                     dict_set ''13hoechayuji'' (Many (xs @ [retention]))
                       (additional_allowances emp)\<rparr>)
      | Some (Single a) \<Rightarrow> Inl AttributeError)"

definition employee_of :: "employees \<Rightarrow> string \<Rightarrow> employee" where
  "employee_of emps k = (case map_of emps k of None \<Rightarrow> new_employee | Some emp \<Rightarrow> emp)"

definition retention_row :: "row \<Rightarrow> employees \<Rightarrow> employees \<times> error option" where
  "retention_row row emps =
     (if in_columns ''FC sabeon'' row \<and> notna (row_get row ''FC sabeon'')
      then (let sabon = py_str (row_get row ''FC sabeon'');
                emps1 = ensure_employee sabon emps
            in case retention_of_row row of
                 Inl e \<Rightarrow> (emps1, Some e)
               | Inr retention \<Rightarrow>
                   (case append_retention retention (employee_of emps1 sabon) of
                      Inl e \<Rightarrow> (emps1, Some e)
                    | Inr emp' \<Rightarrow> (update_employee sabon (\<lambda>emp. emp') emps1, None)))
      else (emps, None))"

text \<open>
  The sheets of the allowances, each read with its own header row. Every block has its own
  \<^verbatim>\<open>try\<close>: an exception ends the block, is printed, and the next block starts from the
  records as they are.
\<close>

record allowance_sheets =
  sichaek2_inbyeolmyeongse :: "row list"
  sonboEXT :: "row list"
  sudang_sinipIP :: "row list"
  MGRsangsaeng_BM :: "row list"
  hoecha13_yuji :: "row list"

definition process_additional_allowances :: "allowance_sheets \<Rightarrow> employees \<Rightarrow> employees" where
  "process_additional_allowances sh emps =
     (let emps1 = fst (for_rows (allowance_row ''FC sabeon'' ''sichaek2_jisasichaek'' sichaek2_dict)
                         (sichaek2_inbyeolmyeongse sh) emps);
          emps2 = fst (for_rows (allowance_row ''FC sabeon'' ''sonboEXT'' sonboEXT_dict)
                         (sonboEXT sh) emps1);
          emps3 = fst (for_rows (allowance_row ''FC sabeon'' ''sinipIPsudang'' sinipIP_dict)
                         (sudang_sinipIP sh) emps2);
          emps4 = fst (for_rows (allowance_row ''sabeon'' ''MGRsangsaeng'' MGRsangsaeng_dict)
                         (MGRsangsaeng_BM sh) emps3)
      in fst (for_rows retention_row (hoecha13_yuji sh) emps4))"

subsection \<open>\<^verbatim>\<open>process_clawback_records\<close>\<close>

definition clawback_of_dict :: "dict \<Rightarrow> clawback" where
  "clawback_of_dict d =
     \<lparr>cb_hwansuyuhyeong = py_str (dict_get d ''hwansuyuhyeong'' CNone),
      cb_hwansugeumaek = num_of (dict_get d ''hwansugeumaek'' CNone),
      cb_rest = other_keys [''hwansuyuhyeong'', ''hwansugeumaek''] d\<rparr>"

definition clawback_row ::
  "(row \<Rightarrow> error + dict) \<Rightarrow> row \<Rightarrow> employees \<Rightarrow> employees \<times> error option"
where
  "clawback_row build row emps =
     (if in_columns ''sabeon'' row \<and> notna (row_get row ''sabeon'')
      then (let sabon = py_str (row_get row ''sabeon'');
                emps1 = ensure_employee sabon emps
            in case build row of
                 Inl e \<Rightarrow> (emps1, Some e)
               | Inr d \<Rightarrow>
                   (update_employee sabon
                      (\<lambda>emp. emp\<lparr>clawback_records :=
                                    clawback_records emp @ [clawback_of_dict d]\<rparr>) emps1,
                    None))
      else (emps, None))"

definition sichaek2jigeupbun_dict :: "row \<Rightarrow> error + dict" where
  "sichaek2jigeupbun_dict row = mk_dict
     [(''hwansuyuhyeong'', Inr (CStr ''sichaek2jigeupbun'')),
      (''boheomsa'', Inr (row_get row ''boheomsa'')),
      (''jeunggwonbeonho'', Inr (str_if_notna (row_get row ''jeungbeon''))),
      (''gyeyakil'', Inr (str_if_notna (row_get row ''gyeyakil''))),
      (''sangpummyeong'', Inr (row_get row ''sangpummyeong'')),
      (''gyeyaksangtae'', Inr (row_get row ''gyeyaksangtae'')),
      (''chogi_wolnapP'', float_or0 row ''chogi_wolnapP''),
      (''byeongyeong_wolnapP'', float_or0 row ''byeongyeong_wolnapP''),
      (''hwansugeumaek'', float_or0 row ''jigeupaek'')]"

definition sogaebi_dict :: "row \<Rightarrow> error + dict" where
  "sogaebi_dict row = mk_dict
     [(''hwansuyuhyeong'', Inr (CStr ''sogaebi'')),
      (''doipjasabeon'', Inr (str_if_notna (row_get row ''doipjasabeon''))),
      (''doipinwon'', int_or0 row ''doipinwon''),
      (''wichokil'', Inr (str_if_notna (row_get row ''wichokil''))),
      (''haechokil'', Inr (str_if_notna (row_get row ''haechokil''))),
      (''hwansugeumaek'', float_or0 row ''hwansudaesangaek'')]"

definition gyoyukbi_dict :: "row \<Rightarrow> error + dict" where
  "gyoyukbi_dict row = mk_dict
     [(''hwansuyuhyeong'', Inr (CStr ''gyoyukbi'')),
      (''wichokil'', Inr (str_if_notna (row_get row ''wichokil''))),
      (''haechokil'', Inr (str_if_notna (row_get row ''haechokil''))),
      (''hwansugeumaek'', float_or0 row ''hwansudaesangaek''),
      (''gijunwol'', Inr (str_if_notna (row_get row ''gijunwol'')))]"

record clawback_sheets =
  hwansu_sichaek2jigeupbun_wanryo :: "row list"
  hwansu_sogaebi_wanryo :: "row list"
  hwansu_gyoyukbi_wanryo :: "row list"

definition process_clawback_records :: "clawback_sheets \<Rightarrow> employees \<Rightarrow> employees" where
  "process_clawback_records sh emps =
     (let emps1 = fst (for_rows (clawback_row sichaek2jigeupbun_dict)
                         (hwansu_sichaek2jigeupbun_wanryo sh) emps);
          emps2 = fst (for_rows (clawback_row sogaebi_dict) (hwansu_sogaebi_wanryo sh) emps1)
      in fst (for_rows (clawback_row gyoyukbi_dict) (hwansu_gyoyukbi_wanryo sh) emps2))"

subsection \<open>\<^verbatim>\<open>calculate_aggregated_financials\<close>\<close>

text \<open>\<^verbatim>\<open>sum\<close> adds from the left, starting at 0.\<close>

definition py_sum :: "real list \<Rightarrow> real" where
  "py_sum xs = foldl (+) 0 xs"

definition aggregated_financials :: "employee \<Rightarrow> employee" where
  "aggregated_financials emp =
     (let chong_keomisyeon = py_sum (map c_jigeupsusuryo_hapgye (commission_contracts emp));
          chong_obeoraideu =
            py_sum (map o_obeoraideu_geumaek
                      (filter (\<lambda>r. o_yeokhal r = ''receiver'') (override_records emp)));
          chong_sichaekgeumaek = py_sum (map p_jigeup_gye (policy_contracts emp));
          chong_hwansugeumaek = py_sum (map cb_hwansugeumaek (clawback_records emp))
      in emp\<lparr>summary_financials :=
               fold (\<lambda>(k, v). dict_set k v)
                 [(''chong_keomisyeon'', chong_keomisyeon),
                  (''chong_obeoraideu'', chong_obeoraideu),
                  (''chong_sichaekgeumaek'', chong_sichaekgeumaek),
                  (''chong_hwansugeumaek'', chong_hwansugeumaek),
                  (''gyeyakgeonsu'', real (length (commission_contracts emp))),
                  (''obeoraideugeonsu'',
                     real (length (filter (\<lambda>r. o_yeokhal r = ''receiver'')
                                     (override_records emp)))),
                  (''sichaekgyeyakgeonsu'', real (length (policy_contracts emp))),
                  (''hwansugeonsu'', real (length (clawback_records emp)))]
                 (summary_financials emp)\<rparr>)"

definition calculate_aggregated_financials :: "employees \<Rightarrow> employees" where
  "calculate_aggregated_financials emps =
     map (\<lambda>(k, emp). (k, aggregated_financials emp)) emps"

subsection \<open>\<^verbatim>\<open>process_all\<close>\<close>

text \<open>
  The sheets of the workbook, as read by \<^verbatim>\<open>safe_read_sheet\<close>. The first four steps have no
  \<^verbatim>\<open>try\<close> of their own: an exception in one of them leaves \<^verbatim>\<open>process_all\<close>.
\<close>

record sheets =
  inbyeolmyeongse :: "row list"
  geonbyeolsusuryo :: "row list"
  geonbyeolOR :: "row list"
  sichaekgeonbyeol :: "row list"
  eopjeok :: "row list"
  allowances :: allowance_sheets
  clawbacks :: clawback_sheets

definition process_all :: "sheets \<Rightarrow> error + employees" where
  "process_all xl =
     (case process_individual_statements (inbyeolmyeongse xl) [] of
        (emps1, Some e) \<Rightarrow> Inl e
      | (emps1, None) \<Rightarrow>
     (case process_commission_contracts (geonbyeolsusuryo xl) emps1 of
        (emps2, Some e) \<Rightarrow> Inl e
      | (emps2, None) \<Rightarrow>
     (case process_override_records (geonbyeolOR xl) emps2 of
        (emps3, Some e) \<Rightarrow> Inl e
      | (emps3, None) \<Rightarrow>
     (case process_policy_contracts (sichaekgeonbyeol xl) emps3 of
        (emps4, Some e) \<Rightarrow> Inl e
      | (emps4, None) \<Rightarrow>
          Inr (calculate_aggregated_financials
                 (process_clawback_records (clawbacks xl)
                    (process_additional_allowances (allowances xl)
                       (process_performance_records (eopjeok xl) emps4))))))))"

section \<open>The formatter\<close>

subsection \<open>Numbers in the text\<close>

text \<open>
  The format \<^verbatim>\<open>{x:,.0f}\<close>: the number rounded to an integer, a half going to the even
  neighbour, with a comma between groups of three digits; the sign of a negative number
  stays when it rounds to zero.
\<close>

definition round_half_even :: "real \<Rightarrow> int" where
  "round_half_even x =
     (let f = \<lfloor>x\<rfloor>; d = x - of_int f
      in if d < 1 / 2 then f else if 1 / 2 < d then f + 1 else if even f then f else f + 1)"

definition pad3 :: "nat \<Rightarrow> string" where
  "pad3 n = [''0123456789'' ! (n div 100), ''0123456789'' ! (n div 10 mod 10),
             ''0123456789'' ! (n mod 10)]"

fun commas :: "nat \<Rightarrow> string" where
  "commas n =
     (if n < 1000 then str_nat n else commas (n div 1000) @ '','' @ pad3 (n mod 1000))"

declare commas.simps [simp del]

definition fmt0 :: "real \<Rightarrow> string" where
  "fmt0 x = (if x < 0 then ''-'' else '''') @ commas (nat \<bar>round_half_even x\<bar>)"

text \<open>\<^verbatim>\<open>sep.join(parts)\<close>.\<close>

fun join :: "string \<Rightarrow> string list \<Rightarrow> string" where
  "join sep [] = []"
| "join sep [x] = x"
| "join sep (x # y # ys) = x @ sep @ join sep (y # ys)"

text \<open>
  The groups of a list under a key, in the order in which the keys are first seen:
  \<^verbatim>\<open>if k not in d: d[k] = []\<close> and \<^verbatim>\<open>d[k].append(x)\<close> for each element.
\<close>

definition group_by :: "('a \<Rightarrow> cell) \<Rightarrow> 'a list \<Rightarrow> (cell \<times> 'a list) list" where
  "group_by key xs = foldl (\<lambda>g x. group_add (key x) x g) [] xs"

text \<open>\<^verbatim>\<open>if k not in d: d[k] = 0\<close> and \<^verbatim>\<open>d[k] += v\<close>, for text keys.\<close>

definition add_to :: "string \<Rightarrow> real \<Rightarrow> (string \<times> real) list \<Rightarrow> (string \<times> real) list" where
  "add_to k v d = dict_set k (dict_get d k 0 + v) d"

subsection \<open>\<^verbatim>\<open>to_text_for_embedding\<close>, section by section\<close>

definition profile_parts :: "employee \<Rightarrow> string list" where
  "profile_parts emp =
     (case employee_profile emp of
        None \<Rightarrow> []
      | Some p \<Rightarrow>
          [''sabeon: '' @ sabon emp,
           ''sawonmyeong: '' @ py_str (pr_sawonmyeong p),
           ''jikjong: '' @ py_str (pr_jikjong p),
           ''sosok: '' @ py_str (pr_sosok p),
           ''sosokgyeongro: '' @ py_str (pr_sosokgyeongro p),
           ''wichokil: '' @ py_str (pr_wichokil p),
           ''wichokgubun: '' @ py_str (pr_wichokgubun p)])"

definition financial_parts :: "employee \<Rightarrow> string list" where
  "financial_parts emp =
     (let sf = summary_financials emp
      in if sf = [] then []
         else [''\<newline>## jaemu yoyak'',
               ''choejongjigeupaek: '' @ fmt0 (dict_get sf ''choejongjigeupaek'' 0) @ ''won'',
               ''chong keomisyeon: '' @ fmt0 (dict_get sf ''chong_keomisyeon'' 0) @ ''won'',
               ''chong obeoraideu: '' @ fmt0 (dict_get sf ''chong_obeoraideu'' 0) @ ''won'',
               ''chong sichaekgeumaek: '' @ fmt0 (dict_get sf ''chong_sichaekgeumaek'' 0) @ ''won'',
               ''chong hwansugeumaek: '' @ fmt0 (dict_get sf ''chong_hwansugeumaek'' 0) @ ''won''])"

definition commission_parts :: "employee \<Rightarrow> string list" where
  "commission_parts emp =
     (let cs = commission_contracts emp
      in if cs = [] then []
         else [''\<newline>## susuryo gyeyak: '' @ str_nat (length cs) @ ''geon'',
               ''chong susuryo: '' @ fmt0 (py_sum (map c_jigeupsusuryo_hapgye cs)) @ ''won'',
               ''boheomsabyeol gyeyak:''] @
              map (\<lambda>(insurer, contracts).
                     ''  - '' @ py_str insurer @ '': '' @ str_nat (length contracts) @ ''geon, '' @
                     fmt0 (py_sum (map c_jigeupsusuryo_hapgye contracts)) @ ''won'')
                (group_by c_boheomsa cs))"

definition override_parts :: "employee \<Rightarrow> string list" where
  "override_parts emp =
     (let ovs = override_records emp
      in if ovs = [] then []
         else [''\<newline>## obeoraideu: '' @ str_nat (length ovs) @ ''geon'',
               ''chong obeoraideu: '' @ fmt0 (py_sum (map o_obeoraideu_geumaek ovs)) @ ''won''] @
              map (\<lambda>(otype, records).
                     ''  - '' @ py_str otype @ '': '' @ str_nat (length records) @ ''geon, '' @
                     fmt0 (py_sum (map o_obeoraideu_geumaek records)) @ ''won'')
                (group_by o_obeoraideu_jongryu ovs))"

definition policy_parts :: "employee \<Rightarrow> string list" where
  "policy_parts emp =
     (let ps = policy_contracts emp
      in if ps = [] then []
         else [''\<newline>## sichaek gyeyak: '' @ str_nat (length ps) @ ''geon'',
               ''chong sichaekgeumaek: '' @ fmt0 (py_sum (map p_jigeup_gye ps)) @ ''won''])"

text \<open>
  Lines 154-160. No value of \<^verbatim>\<open>additional_allowances\<close> is a number, so the first test of
  the loop never holds; a list (the retention entries) prints nothing.
\<close>

fun allowance_line :: "string \<times> allowance \<Rightarrow> string list" where
  "allowance_line (key, Single a) =
     (if 0 < a_geumaek a then [''  - '' @ key @ '': '' @ fmt0 (a_geumaek a) @ ''won''] else [])"
| "allowance_line (key, Many xs) = []"

definition allowance_parts :: "employee \<Rightarrow> string list" where
  "allowance_parts emp =
     (let aa = additional_allowances emp
      in if aa = [] then []
         else ''\<newline>## chuga sudang'' # concat (map allowance_line aa))"

definition clawback_parts :: "employee \<Rightarrow> string list" where
  "clawback_parts emp =
     (let cbs = clawback_records emp
      in if cbs = [] then []
         else [''\<newline>## hwansu girok: '' @ str_nat (length cbs) @ ''geon'',
               ''chong hwansugeumaek: '' @ fmt0 (py_sum (map cb_hwansugeumaek cbs)) @ ''won''] @
              map (\<lambda>(ctype, amount). ''  - '' @ ctype @ '': '' @ fmt0 amount @ ''won'')
                (foldl (\<lambda>by_type c. add_to (cb_hwansuyuhyeong c) (cb_hwansugeumaek c) by_type)
                   [] cbs))"

definition performance_parts :: "employee \<Rightarrow> string list" where
  "performance_parts emp =
     (let prs = performance_records emp
      in if prs = [] then []
         else [''\<newline>## eopjeok girok: '' @ str_nat (length prs) @ ''geon''])"

definition to_text_for_embedding :: "employee \<Rightarrow> string" where
  "to_text_for_embedding emp =
     join ''\<newline>''
       (profile_parts emp @ financial_parts emp @ commission_parts emp @ override_parts emp @
        policy_parts emp @ allowance_parts emp @ clawback_parts emp @ performance_parts emp)"

subsection \<open>\<^verbatim>\<open>generate_employee_centric_documents\<close>\<close>

text \<open>
  \<^verbatim>\<open>emp.employee_profile.get(k, '')\<close> for the keys that the profile of line 220 always has,
  and \<^verbatim>\<open>emp.summary_financials.get(k, 0)\<close>.
\<close>

definition profile_get :: "(profile \<Rightarrow> cell) \<Rightarrow> employee \<Rightarrow> cell" where
  "profile_get field emp =
     (case employee_profile emp of None \<Rightarrow> CStr '''' | Some p \<Rightarrow> field p)"

definition profile_document :: "string \<Rightarrow> employee \<Rightarrow> document" where
  "profile_document k emp =
     \<lparr>doc_id = k @ ''_profile'',
      doc_type = ''employee_profile'',
      doc_text = to_text_for_embedding emp,
      metadata =
        [(''sabeon'', Scalar (CStr k)),
         (''sawonmyeong'', Scalar (profile_get pr_sawonmyeong emp)),
         (''jikjong'', Scalar (profile_get pr_jikjong emp)),
         (''sosok'', Scalar (profile_get pr_sosok emp)),
         (''wichokil'', Scalar (profile_get pr_wichokil emp)),
         (''choejongjigeupaek'', Scalar (CFloat (dict_get (summary_financials emp) ''choejongjigeupaek'' 0))),
         (''chong_keomisyeon'', Scalar (CFloat (dict_get (summary_financials emp) ''chong_keomisyeon'' 0))),
         (''chong_obeoraideu'', Scalar (CFloat (dict_get (summary_financials emp) ''chong_obeoraideu'' 0))),
         (''gyeyakgeonsu'', Scalar (CFloat (dict_get (summary_financials emp) ''gyeyakgeonsu'' 0)))]\<rparr>"

definition generate_employee_centric_documents :: "employees \<Rightarrow> document list" where
  "generate_employee_centric_documents emps =
     map (\<lambda>(k, emp). profile_document k emp) emps"

section \<open>Auxiliary notions for the proofs\<close>




text \<open>
  Two dicts of employees agree on a field when, key by key, the field has the same value;
  a key without a record counts as a fresh record.
\<close>

definition same_on :: "(employee \<Rightarrow> 'a) \<Rightarrow> employees \<Rightarrow> employees \<Rightarrow> bool" where
  "same_on g emps emps' = (\<forall>k. g (employee_of emps' k) = g (employee_of emps k))"

text \<open>
  The loop bodies of the optional sources: the five blocks of
  \<^verbatim>\<open>process_additional_allowances\<close> and the three of \<^verbatim>\<open>process_clawback_records\<close>.
\<close>

definition optional_row_bodies :: "(row \<Rightarrow> employees \<Rightarrow> employees \<times> error option) set" where
  "optional_row_bodies =
     {allowance_row ''FC sabeon'' ''sichaek2_jisasichaek'' sichaek2_dict,
      allowance_row ''FC sabeon'' ''sonboEXT'' sonboEXT_dict,
      allowance_row ''FC sabeon'' ''sinipIPsudang'' sinipIP_dict,
      allowance_row ''sabeon'' ''MGRsangsaeng'' MGRsangsaeng_dict,
      retention_row,
      clawback_row sichaek2jigeupbun_dict,
      clawback_row sogaebi_dict,
      clawback_row gyoyukbi_dict}"

text \<open>The rows of a sheet that count for the employee \<open>k\<close>, given the number column.\<close>

definition rows_for :: "string \<Rightarrow> string \<Rightarrow> row list \<Rightarrow> row list" where
  "rows_for column k rows =
     filter (\<lambda>row. in_columns column row \<and> notna (row_get row column)
                   \<and> py_str (row_get row column) = k) rows"

section \<open>Concrete inputs\<close>

text \<open>
  Stand-ins for the embedding service and the store, both succeeding, and a small document
  with the two metadata keys that the upload reads. They are used where a statement is run
  on a concrete input.
\<close>

definition create_ok :: "string list \<Rightarrow> error + nat list" where
  "create_ok texts = Inr (map length texts)"

definition upsert_ok :: "nat vector list \<Rightarrow> string \<Rightarrow> bool" where
  "upsert_ok vectors namespace = True"

definition example_doc :: "string \<Rightarrow> string \<Rightarrow> document" where
  "example_doc k name =
     \<lparr>doc_id = k @ ''_profile'',
      doc_type = ''employee_profile'',
      doc_text = ''sabeon: '' @ k,
      metadata = [(''sabeon'', Scalar (CStr k)), (''sawonmyeong'', Scalar (CStr name))]\<rparr>"

text \<open>A document whose number is a float NaN, the object 0.\<close>

definition example_nan_doc :: document where
  "example_nan_doc =
     \<lparr>doc_id = ''nan_profile'',
      doc_type = ''employee_profile'',
      doc_text = ''sabeon: nan'',
      metadata = [(''sabeon'', NaN 0), (''sawonmyeong'', Scalar (CStr ''Choi''))]\<rparr>"

text \<open>
  An override entry with a role and an amount, and a commission entry with an insurer and
  an amount.
\<close>

definition example_override :: "string \<Rightarrow> real \<Rightarrow> override" where
  "example_override role amount =
     \<lparr>o_yeokhal = role, o_obeoraideu_jongryu = CStr ''BM'', o_obeoraideu_daesangja = CStr ''Kim'',
      o_FC_sabeon = ''2002'', o_FC_daesangja = CStr ''Lee'', o_obeoraideu_geumaek = amount,
      o_suryeongja_sabeon = None, o_suryeongja_ireum = None, o_rest = []\<rparr>"


text \<open>A row of the override sheet: receiver 1001 (Kim), FC 2002 (Lee), 5000 won.\<close>

definition example_override_row :: row where
  "example_override_row =
     [(''[obeoraideu] daesangjasabeon'', CInt 1001), (''[obeoraideu] daesangja'', CStr ''Kim''),
      (''[FC] daesangjasabeon'', CInt 2002), (''[FC] daesangja'', CStr ''Lee''),
      (''[obeoraideu] jongryu'', CStr ''BM''), (''[jigeupsusuryo] obeoraideu'', CInt 5000)]"

text \<open>
  A row of the roster whose number is the integer 12345, and a row of the commission sheet
  whose number is the text 12345.
\<close>

definition example_roster_row :: row where
  "example_roster_row =
     [(''sabeon'', CInt 12345), (''sawonmyeong'', CStr ''Kim''), (''choejongjigeupaek'', CInt 3000)]"

definition example_commission_row :: row where
  "example_commission_row =
     [(''jigeupsawonbeonho'', CStr ''12345''), (''boheomsa'', CStr ''A''),
      (''[jigeupsusuryo] hapgye'', CInt 60)]"

text \<open>
  Rows of the first clawback sheet for employee 1001: two well-formed rows, and between them
  a row whose amount is a text that is not a number.
\<close>

definition example_clawback_row :: "cell \<Rightarrow> row" where
  "example_clawback_row amount = [(''sabeon'', CInt 1001), (''jigeupaek'', amount)]"

definition example_clawback_sheets :: clawback_sheets where
  "example_clawback_sheets =
     \<lparr>hwansu_sichaek2jigeupbun_wanryo =
        [example_clawback_row (CInt 5000), example_clawback_row (CStr ''abc''),
         example_clawback_row (CInt 7000)],
      hwansu_sogaebi_wanryo = [],
      hwansu_gyoyukbi_wanryo = []\<rparr>"

text \<open>A workbook without any row.\<close>

definition empty_sheets :: sheets where
  "empty_sheets =
     \<lparr>inbyeolmyeongse = [], geonbyeolsusuryo = [], geonbyeolOR = [], sichaekgeonbyeol = [],
      eopjeok = [],
      allowances = \<lparr>sichaek2_inbyeolmyeongse = [], sonboEXT = [], sudang_sinipIP = [],
                     MGRsangsaeng_BM = [], hoecha13_yuji = []\<rparr>,
      clawbacks = \<lparr>hwansu_sichaek2jigeupbun_wanryo = [], hwansu_sogaebi_wanryo = [],
                    hwansu_gyoyukbi_wanryo = []\<rparr>\<rparr>"

text \<open>A row of an allowance sheet for employee 1001 with a given amount.\<close>

definition example_allowance_row :: "cell \<Rightarrow> row" where
  "example_allowance_row amount = [(''FC sabeon'', CInt 1001), (''jigeupaek'', amount)]"

text \<open>A workbook whose roster has one row and whose other sheets are empty.\<close>

definition example_sheets :: sheets where
  "example_sheets = empty_sheets\<lparr>inbyeolmyeongse := [example_roster_row]\<rparr>"

section \<open>Facts about the dict of employees\<close>

lemma has_employee_map_of: "has_employee k emps \<longleftrightarrow> map_of emps k \<noteq> None"
  by (simp add: has_employee_def map_of_eq_None_iff)

lemma map_of_update_employee:
  "map_of (update_employee k f emps) k'
     = (if k' = k then map_option f (map_of emps k) else map_of emps k')"
  by (induction emps) auto

lemma map_of_ensure_employee:
  "map_of (ensure_employee k emps) k'
     = (if k' = k \<and> map_of emps k = None then Some (new_employee\<lparr>sabon := k\<rparr>)
        else map_of emps k')"
  by (auto simp: ensure_employee_def has_employee_map_of map_add_def split: option.splits)

lemma keys_update_employee: "map fst (update_employee k f emps) = map fst emps"
  by (induction emps) auto

lemma mk_dict_lookup:
  "mk_dict kvs = Inr d \<Longrightarrow> map_of kvs k = Some (Inr v) \<Longrightarrow> map_of d k = Some v"
proof (induction kvs arbitrary: d)
  case Nil
  then show ?case by simp
next
  case (Cons a kvs)
  obtain k' r where a: "a = (k', r)" by (cases a)
  show ?case
  proof (cases r)
    case (Inl e)
    with Cons.prems show ?thesis by (simp add: a)
  next
    case (Inr v')
    with Cons.prems obtain d' where d': "mk_dict kvs = Inr d'" "d = (k', v') # d'"
      by (auto simp: a split: sum.splits)
    with Cons Inr show ?thesis
      by (auto simp: a split: if_splits)
  qed
qed

lemma row_item_get: "row_item row k = Inr c \<Longrightarrow> row_get row k = c"
  by (auto simp: row_item_def row_get_def split: option.splits)

lemma has_employee_ensure: "has_employee k (ensure_employee k emps)"
  by (simp add: has_employee_map_of map_of_ensure_employee)

lemma has_employee_ensure_other: "has_employee k emps \<Longrightarrow> has_employee k (ensure_employee k' emps)"
  by (auto simp add: has_employee_map_of map_of_ensure_employee)

lemma has_employee_update: "has_employee k (update_employee k' f emps) = has_employee k emps"
  by (simp add: has_employee_def keys_update_employee)

lemma has_employee_append:
  "has_employee k (emps @ [(k', e)]) \<longleftrightarrow> has_employee k emps \<or> k = k'"
  by (auto simp: has_employee_def)

lemma ensure_employee_present: "has_employee k emps \<Longrightarrow> ensure_employee k emps = emps"
  by (simp add: ensure_employee_def)

section \<open>The upload: isolation of the namespaces\<close>



















lemma build_vectors_mismatch:
  "(d, e) \<in> set zs \<Longrightarrow> map_of (metadata d) ''sabeon'' = Some v \<Longrightarrow> differs v k \<Longrightarrow>
   \<exists>err. build_vectors k zs = Inl err"
proof (induction zs)
  case Nil
  then show ?case by simp
next
  case (Cons z zs)
  obtain d' e' where z: "z = (d', e')" by (cases z)
  show ?case
  proof (cases "z = (d, e)")
    case True
    with Cons.prems show ?thesis by (simp add: z)
  next
    case False
    with Cons obtain err where "build_vectors k zs = Inl err" by auto
    then show ?thesis
      by (simp add: z split: option.splits)
  qed
qed

lemma upload_batches_failure:
  "upload_batches create upsert k bs1 st = (st1, None) \<Longrightarrow>
   upload_batch create upsert k b st1 = (st2, Some e) \<Longrightarrow>
   upload_batches create upsert k (bs1 @ b # bs2) st = (st2, Some e)"
proof (induction bs1 arbitrary: st)
  case Nil
  then show ?case by simp
next
  case (Cons a bs1)
  then show ?case
    by (auto split: prod.splits option.splits)
qed

lemma upload_groups_failure:
  "upload_groups create upsert n gs1 st = (st1, None) \<Longrightarrow>
   upload_employee create upsert n k ds st1 = (st2, Some e) \<Longrightarrow>
   upload_groups create upsert n (gs1 @ (k, ds) # gs2) st = (st2, Some e)"
proof (induction gs1 arbitrary: st)
  case Nil
  then show ?case by simp
next
  case (Cons a gs1)
  obtain k' ds' where a: "a = (k', ds')" by (cases a)
  from Cons show ?case
    by (auto simp: a split: prod.splits option.splits)
qed

text \<open>
  C1, as the code has it. Let the upload have reached, without an exception, some batch of
  some employee, and let a document of that batch carry a number that differs from the key
  of the employee (which the grouping allows only for a number that differs from itself).
  Then building the vectors of the batch raises, and the exception is not caught inside the
  upload: \<^verbatim>\<open>upload_documents\<close> ends with an exception in the state it had before the batch.
  Nothing of the batch is stored, and neither the later batches of the employee nor the
  employees after it are uploaded; what was stored before stays.
\<close>

theorem mismatch_aborts_upload:
  assumes "group_docs documents [] = Inr (gs1 @ (key, employee_docs) # gs2)"
    and "upload_groups create upsert batch_size gs1 init_upload = (st1, None)"
    and "0 < batch_size"
    and "batches (nat batch_size) employee_docs = bs1 @ batch # bs2"
    and "upload_batches create upsert key bs1 st1 = (st2, None)"
    and "generate_embeddings_batch create (map doc_text batch) = Inr embeddings"
    and "(d, e) \<in> set (zip batch embeddings)"
    and "map_of (metadata d) ''sabeon'' = Some v"
    and "differs v key"
  shows "\<exists>err. upload_documents create upsert documents batch_size = (st2, Some err)"
proof -
  from build_vectors_mismatch [OF assms(7) assms(8) assms(9)] obtain err where
    "build_vectors key (zip batch embeddings) = Inl err"
    by auto
  with assms(6) have "upload_batch create upsert key batch st2 = (st2, Some err)"
    by (simp add: upload_batch_def)
  with assms(5) have
    "upload_batches create upsert key (bs1 @ batch # bs2) st1 = (st2, Some err)"
    by (rule upload_batches_failure)
  moreover from assms(4) have "employee_docs \<noteq> []"
    by (auto simp: batches.simps)
  ultimately have
    "upload_employee create upsert batch_size key employee_docs st1 = (st2, Some err)"
    using assms(3,4) by (simp add: upload_employee_def)
  with assms(2) have
    "upload_groups create upsert batch_size (gs1 @ (key, employee_docs) # gs2) init_upload
       = (st2, Some err)"
    by (rule upload_groups_failure)
  with assms(1) show ?thesis
    by (simp add: upload_documents_def)
qed

lemma example_first_group:
  "snd (upload_groups create_ok upsert_ok 100
          [(KCell (CStr ''1001''), [example_doc ''1001'' ''Kim''])] init_upload) = None"
  by (simp add: upload_employee_def upload_batch_def generate_embeddings_batch_def
        create_ok_def upsert_ok_def example_doc_def batches.simps)

theorem mismatch_aborts_upload_witness:
  "group_docs [example_doc ''1001'' ''Kim'', example_nan_doc, example_doc ''1003'' ''Park''] []
     = Inr ([(KCell (CStr ''1001''), [example_doc ''1001'' ''Kim''])]
            @ (KNaN 0, [example_nan_doc])
            # [(KCell (CStr ''1003''), [example_doc ''1003'' ''Park''])])
   \<and> upload_groups create_ok upsert_ok 100
        [(KCell (CStr ''1001''), [example_doc ''1001'' ''Kim''])] init_upload
       = (fst (upload_groups create_ok upsert_ok 100
                 [(KCell (CStr ''1001''), [example_doc ''1001'' ''Kim''])] init_upload), None)
   \<and> (0::int) < 100
   \<and> batches (nat 100) [example_nan_doc] = [] @ [example_nan_doc] # []
   \<and> generate_embeddings_batch create_ok (map doc_text [example_nan_doc]) = Inr [11]
   \<and> (example_nan_doc, 11) \<in> set (zip [example_nan_doc] [11])
   \<and> map_of (metadata example_nan_doc) ''sabeon'' = Some (NaN 0)
   \<and> differs (NaN 0) (KNaN 0)
   \<and> (\<exists>err. upload_documents create_ok upsert_ok
               [example_doc ''1001'' ''Kim'', example_nan_doc, example_doc ''1003'' ''Park''] 100
             = (fst (upload_groups create_ok upsert_ok 100
                       [(KCell (CStr ''1001''), [example_doc ''1001'' ''Kim''])] init_upload),
                Some err))"
proof -
  let ?gs1 = "[(KCell (CStr ''1001''), [example_doc ''1001'' ''Kim''])]"
  let ?st1 = "fst (upload_groups create_ok upsert_ok 100 ?gs1 init_upload)"
  have h1: "group_docs [example_doc ''1001'' ''Kim'', example_nan_doc,
                         example_doc ''1003'' ''Park''] []
     = Inr (?gs1 @ (KNaN 0, [example_nan_doc])
            # [(KCell (CStr ''1003''), [example_doc ''1003'' ''Park''])])"
    by (simp add: example_doc_def example_nan_doc_def)
  have h2: "upload_groups create_ok upsert_ok 100 ?gs1 init_upload = (?st1, None)"
    using example_first_group by (simp add: prod_eq_iff)
  have h3: "(0::int) < 100" by simp
  have h4: "batches (nat 100) [example_nan_doc] = [] @ [example_nan_doc] # []"
    by (simp add: batches.simps)
  have h5: "upload_batches create_ok upsert_ok (KNaN 0) [] ?st1 = (?st1, None)" by simp
  have h6: "generate_embeddings_batch create_ok (map doc_text [example_nan_doc]) = Inr [11]"
    by (simp add: generate_embeddings_batch_def create_ok_def example_nan_doc_def)
  have h7: "(example_nan_doc, 11) \<in> set (zip [example_nan_doc] [11])" by simp
  have h8: "map_of (metadata example_nan_doc) ''sabeon'' = Some (NaN 0)"
    by (simp add: example_nan_doc_def)
  have h9: "differs (NaN 0) (KNaN 0)" by simp
  from mismatch_aborts_upload [OF h1 h2 h3 h4 h5 h6 h7 h8 h9] h1 h2 h3 h4 h6 h7 h8 h9
  show ?thesis by blast
qed

text \<open>
  C1, as the spec has it, fails: with both services succeeding, the document of employee
  1001 is stored, the document whose number is a NaN raises the mismatch error, and the run
  ends there. The document of employee 1003 is not stored, although it is when the NaN
  document is absent.
\<close>

theorem mismatch_ends_the_run:
  "snd (upload_documents create_ok upsert_ok
          [example_doc ''1001'' ''Kim'', example_nan_doc, example_doc ''1003'' ''Park''] 100)
     = Some SecurityError
   \<and> map fst (upserted (fst (upload_documents create_ok upsert_ok
          [example_doc ''1001'' ''Kim'', example_nan_doc, example_doc ''1003'' ''Park''] 100)))
     = [''employee_1001'']
   \<and> map fst (upserted (fst (upload_documents create_ok upsert_ok
          [example_doc ''1001'' ''Kim'', example_doc ''1003'' ''Park''] 100)))
     = [''employee_1001'', ''employee_1003'']"
  by (simp add: upload_documents_def upload_employee_def upload_batch_def
        generate_embeddings_batch_def create_ok_def upsert_ok_def example_doc_def
        example_nan_doc_def init_upload_def batches.simps)

section \<open>The derivation pass\<close>

lemma map_of_dict_set:
  "map_of (dict_set k v d) k' = (if k' = k then Some v else map_of d k')"
  by (induction d) auto

lemma dict_set_same: "map_of d k = Some v \<Longrightarrow> dict_set k v d = d"
  by (induction d) (auto split: if_splits)

lemma foldl_add_sum_list: "foldl (+) a xs = (a::real) + sum_list xs"
  by (induction xs arbitrary: a) (simp_all add: add.assoc)

lemma py_sum_sum_list: "py_sum xs = sum_list xs"
  by (simp add: py_sum_def foldl_add_sum_list)

lemma summary_of_aggregated:
  "summary_financials (aggregated_financials emp) =
     dict_set ''hwansugeonsu'' (real (length (clawback_records emp)))
    (dict_set ''sichaekgyeyakgeonsu'' (real (length (policy_contracts emp)))
    (dict_set ''obeoraideugeonsu''
       (real (length (filter (\<lambda>r. o_yeokhal r = ''receiver'') (override_records emp))))
    (dict_set ''gyeyakgeonsu'' (real (length (commission_contracts emp)))
    (dict_set ''chong_hwansugeumaek'' (sum_list (map cb_hwansugeumaek (clawback_records emp)))
    (dict_set ''chong_sichaekgeumaek'' (sum_list (map p_jigeup_gye (policy_contracts emp)))
    (dict_set ''chong_obeoraideu''
       (sum_list (map o_obeoraideu_geumaek
          (filter (\<lambda>r. o_yeokhal r = ''receiver'') (override_records emp))))
    (dict_set ''chong_keomisyeon''
       (sum_list (map c_jigeupsusuryo_hapgye (commission_contracts emp)))
       (summary_financials emp))))))))"
  by (simp add: aggregated_financials_def Let_def py_sum_sum_list)

lemma lists_of_aggregated:
  "commission_contracts (aggregated_financials emp) = commission_contracts emp"
  "override_records (aggregated_financials emp) = override_records emp"
  "policy_contracts (aggregated_financials emp) = policy_contracts emp"
  "clawback_records (aggregated_financials emp) = clawback_records emp"
  by (simp_all add: aggregated_financials_def Let_def)

lemma aggregated_eq:
  "aggregated_financials emp =
     emp\<lparr>summary_financials := summary_financials (aggregated_financials emp)\<rparr>"
  by (simp add: aggregated_financials_def Let_def)


lemma aggregated_idem:
  "aggregated_financials (aggregated_financials emp) = aggregated_financials emp"
proof -
  let ?e = "aggregated_financials emp"
  let ?S = "summary_financials ?e"
  have m:
    "map_of ?S ''chong_keomisyeon''
       = Some (sum_list (map c_jigeupsusuryo_hapgye (commission_contracts emp)))"
    "map_of ?S ''chong_obeoraideu''
       = Some (sum_list (map o_obeoraideu_geumaek
            (filter (\<lambda>r. o_yeokhal r = ''receiver'') (override_records emp))))"
    "map_of ?S ''chong_sichaekgeumaek'' = Some (sum_list (map p_jigeup_gye (policy_contracts emp)))"
    "map_of ?S ''chong_hwansugeumaek''
       = Some (sum_list (map cb_hwansugeumaek (clawback_records emp)))"
    "map_of ?S ''gyeyakgeonsu'' = Some (real (length (commission_contracts emp)))"
    "map_of ?S ''obeoraideugeonsu''
       = Some (real (length (filter (\<lambda>r. o_yeokhal r = ''receiver'') (override_records emp))))"
    "map_of ?S ''sichaekgyeyakgeonsu'' = Some (real (length (policy_contracts emp)))"
    "map_of ?S ''hwansugeonsu'' = Some (real (length (clawback_records emp)))"
    by (simp_all add: summary_of_aggregated map_of_dict_set)
  have "summary_financials (aggregated_financials ?e) = ?S"
    by (simp only: summary_of_aggregated [of ?e] lists_of_aggregated m [THEN dict_set_same])
  then have "?e\<lparr>summary_financials := summary_financials (aggregated_financials ?e)\<rparr> = ?e"
    by simp
  then show ?thesis
    using aggregated_eq [of ?e] by simp
qed

lemma map_of_calculate:
  "map_of (calculate_aggregated_financials emps) k
     = map_option aggregated_financials (map_of emps k)"
  by (induction emps) (auto simp: calculate_aggregated_financials_def)

lemma calculate_idem:
  "calculate_aggregated_financials (calculate_aggregated_financials emps)
     = calculate_aggregated_financials emps"
  by (induction emps) (auto simp: calculate_aggregated_financials_def aggregated_idem)

text \<open>
  C4. Each of the eight derived entries of the summary is the sum, or the length, of one of
  the four lists of the record, whatever the summary held before; the pass leaves the lists
  alone; and a second pass over the result changes nothing.
\<close>

theorem derivation_idempotent:
  "calculate_aggregated_financials (calculate_aggregated_financials emps)
     = calculate_aggregated_financials emps
   \<and> map_of (calculate_aggregated_financials emps) k
       = map_option aggregated_financials (map_of emps k)
   \<and> map_of (summary_financials (aggregated_financials emp)) ''chong_keomisyeon''
       = Some (sum_list (map c_jigeupsusuryo_hapgye (commission_contracts emp)))
   \<and> map_of (summary_financials (aggregated_financials emp)) ''chong_obeoraideu''
       = Some (sum_list (map o_obeoraideu_geumaek
                 (filter (\<lambda>r. o_yeokhal r = ''receiver'') (override_records emp))))
   \<and> map_of (summary_financials (aggregated_financials emp)) ''chong_sichaekgeumaek''
       = Some (sum_list (map p_jigeup_gye (policy_contracts emp)))
   \<and> map_of (summary_financials (aggregated_financials emp)) ''chong_hwansugeumaek''
       = Some (sum_list (map cb_hwansugeumaek (clawback_records emp)))
   \<and> map_of (summary_financials (aggregated_financials emp)) ''gyeyakgeonsu''
       = Some (real (length (commission_contracts emp)))
   \<and> map_of (summary_financials (aggregated_financials emp)) ''obeoraideugeonsu''
       = Some (real (length (filter (\<lambda>r. o_yeokhal r = ''receiver'') (override_records emp))))
   \<and> map_of (summary_financials (aggregated_financials emp)) ''sichaekgyeyakgeonsu''
       = Some (real (length (policy_contracts emp)))
   \<and> map_of (summary_financials (aggregated_financials emp)) ''hwansugeonsu''
       = Some (real (length (clawback_records emp)))
   \<and> commission_contracts (aggregated_financials emp) = commission_contracts emp
   \<and> override_records (aggregated_financials emp) = override_records emp
   \<and> policy_contracts (aggregated_financials emp) = policy_contracts emp
   \<and> clawback_records (aggregated_financials emp) = clawback_records emp"
  by (simp add: calculate_idem map_of_calculate lists_of_aggregated summary_of_aggregated
        map_of_dict_set)

text \<open>
  C5. For the record stored under a key, the derived total of the overrides is the sum of
  the amounts of the entries with the role \<open>receiver\<close>, and the derived count is their
  number; an entry with another role, added to the list, changes neither.
\<close>

theorem override_total_of_receiver_entries:
  "(map_of emps k = Some emp \<longrightarrow>
      (\<exists>emp'. map_of (calculate_aggregated_financials emps) k = Some emp'
         \<and> override_records emp' = override_records emp
         \<and> map_of (summary_financials emp') ''chong_obeoraideu''
             = Some (sum_list (map o_obeoraideu_geumaek
                       (filter (\<lambda>r. o_yeokhal r = ''receiver'') (override_records emp))))
         \<and> map_of (summary_financials emp') ''obeoraideugeonsu''
             = Some (real (length (filter (\<lambda>r. o_yeokhal r = ''receiver'')
                                     (override_records emp))))))
   \<and> (o_yeokhal r \<noteq> ''receiver'' \<longrightarrow>
        map_of (summary_financials (aggregated_financials
                  (emp\<lparr>override_records := override_records emp @ [r]\<rparr>))) ''chong_obeoraideu''
          = map_of (summary_financials (aggregated_financials emp)) ''chong_obeoraideu''
        \<and> map_of (summary_financials (aggregated_financials
                  (emp\<lparr>override_records := override_records emp @ [r]\<rparr>))) ''obeoraideugeonsu''
          = map_of (summary_financials (aggregated_financials emp)) ''obeoraideugeonsu'')"
  by (simp add: map_of_calculate lists_of_aggregated summary_of_aggregated map_of_dict_set)

theorem override_total_of_receiver_entries_witness:
  "map_of [(''1001'', new_employee\<lparr>override_records := [example_override ''receiver'' 10]\<rparr>)]
      ''1001''
     = Some (new_employee\<lparr>override_records := [example_override ''receiver'' 10]\<rparr>)
   \<and> o_yeokhal (example_override ''fc'' 99) \<noteq> ''receiver''
   \<and> map_of (summary_financials (aggregated_financials
          (new_employee\<lparr>override_records :=
             [example_override ''receiver'' 10, example_override ''fc'' 99]\<rparr>)))
        ''chong_obeoraideu'' = Some 10
   \<and> map_of (summary_financials (aggregated_financials
          (new_employee\<lparr>override_records :=
             [example_override ''receiver'' 10, example_override ''fc'' 99]\<rparr>)))
        ''obeoraideugeonsu'' = Some 1"
proof -
  let ?e = "new_employee\<lparr>override_records := [example_override ''receiver'' 10]\<rparr>"
  have h: "o_yeokhal (example_override ''fc'' 99) \<noteq> ''receiver''"
    by (simp add: example_override_def)
  have base:
    "map_of (summary_financials (aggregated_financials ?e)) ''chong_obeoraideu'' = Some 10"
    "map_of (summary_financials (aggregated_financials ?e)) ''obeoraideugeonsu'' = Some 1"
    using override_total_of_receiver_entries [of "[(''1001'', ?e)]" "''1001''" ?e]
    by (simp_all add: calculate_aggregated_financials_def example_override_def)
  from override_total_of_receiver_entries [of "[(''1001'', ?e)]" "''1001''" ?e
         "example_override ''fc'' 99"] h base
  show ?thesis by simp
qed

section \<open>The override sheet\<close>

lemma override_literal_lookup:
  "map_of (override_literal row) ''yeokhal'' = Some (Inr (CStr ''receiver''))"
  "map_of (override_literal row) ''FC_sabeon''
     = Some (Inr (CStr (py_str (row_get row ''[FC] daesangjasabeon''))))"
  "map_of (override_literal row) ''FC_daesangja'' = Some (Inr (row_get row ''[FC] daesangja''))"
  "map_of (override_literal row) ''obeoraideu_daesangja''
     = Some (Inr (row_get row ''[obeoraideu] daesangja''))"
  by (simp_all add: override_literal_def)

lemma override_of_row_fields:
  assumes "override_of_row row = Inr ov"
  shows "o_yeokhal ov = ''receiver''"
    and "o_FC_sabeon ov = py_str (row_get row ''[FC] daesangjasabeon'')"
    and "o_FC_daesangja ov = row_get row ''[FC] daesangja''"
    and "o_obeoraideu_daesangja ov = row_get row ''[obeoraideu] daesangja''"
    and "o_suryeongja_sabeon ov = None"
    and "o_suryeongja_ireum ov = None"
proof -
  from assms obtain d where d: "mk_dict (override_literal row) = Inr d"
    and ov: "ov =
      \<lparr>o_yeokhal = py_str (dict_get d ''yeokhal'' CNone),
       o_obeoraideu_jongryu = dict_get d ''obeoraideu_jongryu'' CNone,
       o_obeoraideu_daesangja = dict_get d ''obeoraideu_daesangja'' CNone,
       o_FC_sabeon = py_str (dict_get d ''FC_sabeon'' CNone),
       o_FC_daesangja = dict_get d ''FC_daesangja'' CNone,
       o_obeoraideu_geumaek = num_of (dict_get d ''obeoraideu_geumaek'' CNone),
       o_suryeongja_sabeon = None,
       o_suryeongja_ireum = None,
       o_rest = other_keys [''yeokhal'', ''obeoraideu_jongryu'', ''obeoraideu_daesangja'',
                  ''FC_sabeon'', ''FC_daesangja'', ''obeoraideu_geumaek''] d\<rparr>"
    unfolding override_of_row_def by (auto split: sum.splits)
  note l = override_literal_lookup [of row, THEN mk_dict_lookup [OF d]]
  show "o_suryeongja_sabeon ov = None" "o_suryeongja_ireum ov = None" by (simp_all add: ov)
  show "o_yeokhal ov = ''receiver''" by (simp add: ov dict_get_def l)
  show "o_FC_sabeon ov = py_str (row_get row ''[FC] daesangjasabeon'')"
    by (simp add: ov dict_get_def l)
  show "o_FC_daesangja ov = row_get row ''[FC] daesangja''" by (simp add: ov dict_get_def l)
  show "o_obeoraideu_daesangja ov = row_get row ''[obeoraideu] daesangja''"
    by (simp add: ov dict_get_def l)
qed

lemma override_records_employee_of_ensure:
  "override_records (employee_of (ensure_employee k emps) k')
     = override_records (employee_of emps k')"
  by (simp add: employee_of_def map_of_ensure_employee new_employee_def)

lemma override_records_employee_of_append:
  "override_records (employee_of
      (update_employee k (\<lambda>emp. emp\<lparr>override_records := override_records emp @ [x]\<rparr>) emps) k')
     = override_records (employee_of emps k') @
         (if k' = k \<and> has_employee k emps then [x] else [])"
  by (auto simp: employee_of_def map_of_update_employee has_employee_map_of
           split: option.splits)

text \<open>
  C6, as the code has it. A row of the override sheet that is processed without an
  exception names a receiver and an FC, and appends exactly two entries to the whole set of
  records: the entry built from the row, with the role \<open>receiver\<close>, to the record of the
  receiver, and a copy with the role \<open>fc\<close> to the record of the FC. The first carries the
  number and the name of the FC, the copy the number and the name of the receiver. The list
  of every other employee is unchanged. When receiver and FC are the same employee, both
  entries go to the one record.
\<close>

theorem override_row_double_entry:
  assumes "override_row row emps = (emps', None)"
  shows "\<exists>rc fc ov.
      row_item row ''[obeoraideu] daesangjasabeon'' = Inr rc
    \<and> row_item row ''[FC] daesangjasabeon'' = Inr fc
    \<and> override_of_row row = Inr ov
    \<and> has_employee (py_str rc) emps' \<and> has_employee (py_str fc) emps'
    \<and> (\<forall>k. override_records (employee_of emps' k)
            = override_records (employee_of emps k)
              @ (if k = py_str rc then [ov] else [])
              @ (if k = py_str fc
                 then [ov\<lparr>o_yeokhal := ''fc'',
                          o_suryeongja_sabeon := Some (py_str rc),
                          o_suryeongja_ireum := Some (o_obeoraideu_daesangja ov)\<rparr>]
                 else []))
    \<and> o_yeokhal ov = ''receiver''
    \<and> o_FC_sabeon ov = py_str fc
    \<and> o_FC_daesangja ov = row_get row ''[FC] daesangja''
    \<and> o_obeoraideu_daesangja ov = row_get row ''[obeoraideu] daesangja''"
proof -
  from assms obtain rc where rc: "row_item row ''[obeoraideu] daesangjasabeon'' = Inr rc"
    by (auto simp: override_row_def split: sum.splits)
  from assms rc obtain ov where ov: "override_of_row row = Inr ov"
    by (auto simp: override_row_def Let_def split: sum.splits)
  from assms rc ov obtain fc where fc: "row_item row ''[FC] daesangjasabeon'' = Inr fc"
    by (auto simp: override_row_def Let_def split: sum.splits)
  let ?r = "py_str rc" and ?f = "py_str fc"
  let ?fo = "ov\<lparr>o_yeokhal := ''fc'', o_suryeongja_sabeon := Some ?r,
                 o_suryeongja_ireum := Some (row_get row ''[obeoraideu] daesangja'')\<rparr>"
  let ?e1 = "ensure_employee ?r emps"
  let ?e2 = "update_employee ?r
               (\<lambda>emp. emp\<lparr>override_records := override_records emp @ [ov]\<rparr>) ?e1"
  let ?e3 = "ensure_employee ?f ?e2"
  have emps': "emps' = update_employee ?f
                 (\<lambda>emp. emp\<lparr>override_records := override_records emp @ [?fo]\<rparr>) ?e3"
    using assms rc ov fc by (simp add: override_row_def Let_def)
  have h2: "has_employee ?r ?e2"
    by (simp add: has_employee_update has_employee_ensure)
  have h3: "has_employee ?f ?e3" by (rule has_employee_ensure)
  have recs: "override_records (employee_of emps' k)
            = override_records (employee_of emps k)
              @ (if k = ?r then [ov] else []) @ (if k = ?f then [?fo] else [])" for k
    unfolding emps'
    by (simp add: override_records_employee_of_append override_records_employee_of_ensure
          h3 has_employee_ensure)
  have hr: "has_employee ?r emps'"
    unfolding emps' using has_employee_ensure_other [OF h2] by (simp add: has_employee_update)
  have hf: "has_employee ?f emps'"
    unfolding emps' by (simp add: has_employee_update h3)
  note fl = override_of_row_fields [OF ov]
  have "o_FC_sabeon ov = ?f" using fl(2) row_item_get [OF fc] by simp
  with rc fc ov hr hf recs fl show ?thesis
    by auto
qed

lemma example_override_row_ok: "snd (override_row example_override_row []) = None"
  by (simp add: override_row_def override_of_row_def override_literal_def
      example_override_row_def row_item_def row_get_def row_get_or0_def
      float_or0_def int_or0_def py_or_def Let_def)

theorem override_row_double_entry_witness:
  "override_row example_override_row [] = (fst (override_row example_override_row []), None)
   \<and> (\<exists>rc fc ov.
      row_item example_override_row ''[obeoraideu] daesangjasabeon'' = Inr rc
    \<and> row_item example_override_row ''[FC] daesangjasabeon'' = Inr fc
    \<and> override_of_row example_override_row = Inr ov
    \<and> has_employee (py_str rc) (fst (override_row example_override_row []))
    \<and> has_employee (py_str fc) (fst (override_row example_override_row []))
    \<and> (\<forall>k. override_records (employee_of (fst (override_row example_override_row [])) k)
            = override_records (employee_of [] k)
              @ (if k = py_str rc then [ov] else [])
              @ (if k = py_str fc
                 then [ov\<lparr>o_yeokhal := ''fc'',
                          o_suryeongja_sabeon := Some (py_str rc),
                          o_suryeongja_ireum := Some (o_obeoraideu_daesangja ov)\<rparr>]
                 else []))
    \<and> o_yeokhal ov = ''receiver''
    \<and> o_FC_sabeon ov = py_str fc
    \<and> o_FC_daesangja ov = row_get example_override_row ''[FC] daesangja''
    \<and> o_obeoraideu_daesangja ov = row_get example_override_row ''[obeoraideu] daesangja'')"
proof -
  have h: "override_row example_override_row []
             = (fst (override_row example_override_row []), None)"
    using example_override_row_ok by (simp add: prod_eq_iff)
  from h override_row_double_entry [OF h] show ?thesis by (rule conjI)
qed

text \<open>
  C6, as the spec has it, fails on the tag: the entry filed under the FC carries the role
  \<open>fc\<close>, not \<open>originator\<close>.
\<close>

theorem originator_role_is_fc:
  "map o_yeokhal (override_records
      (employee_of (fst (override_row example_override_row [])) ''2002'')) = [''fc'']
   \<and> map o_yeokhal (override_records
      (employee_of (fst (override_row example_override_row [])) ''1001'')) = [''receiver'']"
  by (simp add: override_row_def override_of_row_def override_literal_def
      example_override_row_def row_item_def row_get_def row_get_or0_def
      float_or0_def int_or0_def py_or_def Let_def dict_get_def
      str_int_def str_nat.simps ensure_employee_def has_employee_def new_employee_def
      employee_of_def)

section \<open>The key of a row\<close>

text \<open>
  C2, as the code has it. The key of a row is \<^verbatim>\<open>str\<close> of its number cell. When the number
  cell of a roster row and the number cell of a commission row render as the same text, as
  the integer 12345 and the text 12345 do, the commission row makes no new record: its
  contract is appended to the record that holds the profile of the roster row.
\<close>

theorem same_rendering_same_record:
  assumes "py_str a = py_str b"
    and "row_item r1 ''sabeon'' = Inr a"
    and "summary_of_row r1 = Inr sf"
    and "row_item r2 ''jigeupsawonbeonho'' = Inr b"
    and "commission_of_row r2 = Inr c"
  shows "\<exists>emps1 emps2.
      individual_statement_row r1 emps = (emps1, None)
    \<and> commission_row r2 emps1 = (emps2, None)
    \<and> map fst emps2 = map fst emps1
    \<and> has_employee (py_str a) emps2
    \<and> employee_profile (employee_of emps2 (py_str a)) = Some (profile_of_row r1)
    \<and> commission_contracts (employee_of emps2 (py_str a))
        = commission_contracts (employee_of emps (py_str a)) @ [c]"
proof -
  let ?s = "py_str a"
  let ?e0 = "if has_employee ?s emps then emps else emps @ [(?s, new_employee)]"
  let ?e1 = "update_employee ?s (\<lambda>emp. emp\<lparr>summary_financials := sf\<rparr>)
               (update_employee ?s
                  (\<lambda>emp. emp\<lparr>sabon := ?s, employee_profile := Some (profile_of_row r1)\<rparr>) ?e0)"
  let ?e2 = "update_employee ?s
               (\<lambda>emp. emp\<lparr>commission_contracts := commission_contracts emp @ [c]\<rparr>) ?e1"
  have s1: "individual_statement_row r1 emps = (?e1, None)"
    using assms(2,3) by (simp add: individual_statement_row_def Let_def)
  have h0: "has_employee ?s ?e0" by (simp add: has_employee_append)
  then have h1: "has_employee ?s ?e1" by (simp add: has_employee_update)
  have s2: "commission_row r2 ?e1 = (?e2, None)"
    using assms(1,4,5) h1 by (simp add: commission_row_def Let_def ensure_employee_present)
  have k: "map fst ?e2 = map fst ?e1" by (simp add: keys_update_employee)
  have h2: "has_employee ?s ?e2" using h1 by (simp add: has_employee_update)
  from h0 obtain e where e: "map_of ?e0 ?s = Some e"
    by (auto simp: has_employee_map_of)
  have e_c: "commission_contracts e = commission_contracts (employee_of emps ?s)"
    using e by (auto simp: employee_of_def has_employee_map_of new_employee_def
                     split: option.splits if_splits)
  have p: "employee_profile (employee_of ?e2 ?s) = Some (profile_of_row r1)"
    by (simp add: employee_of_def map_of_update_employee e)
  have cc: "commission_contracts (employee_of ?e2 ?s)
              = commission_contracts (employee_of emps ?s) @ [c]"
    by (simp add: employee_of_def map_of_update_employee e e_c)
  from s1 s2 k h2 p cc show ?thesis by blast
qed

theorem same_rendering_same_record_witness:
  "py_str (CInt 12345) = py_str (CStr ''12345'')
   \<and> row_item example_roster_row ''sabeon'' = Inr (CInt 12345)
   \<and> summary_of_row example_roster_row = Inr (projr (summary_of_row example_roster_row))
   \<and> row_item example_commission_row ''jigeupsawonbeonho'' = Inr (CStr ''12345'')
   \<and> commission_of_row example_commission_row
       = Inr (projr (commission_of_row example_commission_row))
   \<and> (\<exists>emps1 emps2.
        individual_statement_row example_roster_row [] = (emps1, None)
      \<and> commission_row example_commission_row emps1 = (emps2, None)
      \<and> map fst emps2 = map fst emps1
      \<and> has_employee (py_str (CInt 12345)) emps2
      \<and> employee_profile (employee_of emps2 (py_str (CInt 12345)))
          = Some (profile_of_row example_roster_row)
      \<and> commission_contracts (employee_of emps2 (py_str (CInt 12345)))
          = commission_contracts (employee_of [] (py_str (CInt 12345)))
            @ [projr (commission_of_row example_commission_row)])"
proof -
  have h1: "py_str (CInt 12345) = py_str (CStr ''12345'')"
    by (simp add: str_int_def str_nat.simps)
  have h2: "row_item example_roster_row ''sabeon'' = Inr (CInt 12345)"
    by (simp add: row_item_def example_roster_row_def)
  have h3: "summary_of_row example_roster_row = Inr (projr (summary_of_row example_roster_row))"
    by (simp add: summary_of_row_def float_or0_real_def row_get_or0_def py_or_def
          example_roster_row_def)
  have h4: "row_item example_commission_row ''jigeupsawonbeonho'' = Inr (CStr ''12345'')"
    by (simp add: row_item_def example_commission_row_def)
  have h5: "commission_of_row example_commission_row
              = Inr (projr (commission_of_row example_commission_row))"
    by (simp add: commission_of_row_def float_or0_def int_or0_def row_get_or0_def py_or_def
          row_get_def example_commission_row_def)
  from same_rendering_same_record [OF h1 h2 h3 h4 h5, of "[]"] h1 h2 h3 h4 h5
  show ?thesis by blast
qed

text \<open>
  C2, as the spec has it, fails for a number that pandas holds as a float, which it does
  for a numeric column with a blank cell: 12345.0 renders as \<open>12345.0\<close>, so the commission
  row with that cell makes a second record beside the one of the text 12345.
\<close>

theorem float_identifier_is_another_record:
  "map fst (fst (commission_row [(''jigeupsawonbeonho'', CFloat 12345)]
      (fst (individual_statement_row [(''sabeon'', CStr ''12345'')] []))))
     = [''12345'', ''12345.0'']"
  by (simp add: individual_statement_row_def commission_row_def row_item_def Let_def
        has_employee_def ensure_employee_def keys_update_employee str_float_def
        str_nat.simps split: sum.splits)

section \<open>The optional sources\<close>

lemma same_on_refl: "same_on g emps emps"
  by (simp add: same_on_def)

lemma same_on_trans: "same_on g a b \<Longrightarrow> same_on g b c \<Longrightarrow> same_on g a c"
  by (simp add: same_on_def)

lemma same_on_ensure:
  "g (new_employee\<lparr>sabon := k\<rparr>) = g new_employee \<Longrightarrow> same_on g emps (ensure_employee k emps)"
  by (auto simp: same_on_def employee_of_def map_of_ensure_employee)

lemma same_on_update:
  "(\<And>emp. g (f emp) = g emp) \<Longrightarrow> same_on g emps (update_employee k f emps)"
  by (auto simp: same_on_def employee_of_def map_of_update_employee split: option.splits)

lemma for_rows_same_on:
  assumes "\<And>row emps emps' r. body row emps = (emps', r) \<Longrightarrow> same_on g emps emps'"
  shows "for_rows body rows emps = (emps', r) \<Longrightarrow> same_on g emps emps'"
proof (induction rows arbitrary: emps)
  case Nil
  then show ?case by (simp add: same_on_refl)
next
  case (Cons row rows)
  obtain e1 r1 where b: "body row emps = (e1, r1)" by (cases "body row emps")
  then have s1: "same_on g emps e1" by (rule assms)
  show ?case
  proof (cases r1)
    case None
    with Cons.prems b have "for_rows body rows e1 = (emps', r)" by simp
    then have "same_on g e1 emps'" by (rule Cons.IH)
    with s1 show ?thesis by (rule same_on_trans)
  next
    case (Some err)
    with Cons.prems b have "emps' = e1" by simp
    with s1 show ?thesis by simp
  qed
qed

lemma for_rows_failure:
  "for_rows body pre emps = (emps1, None) \<Longrightarrow> body bad emps1 = (emps2, Some e) \<Longrightarrow>
   for_rows body (pre @ bad # post) emps = (emps2, Some e)"
proof (induction pre arbitrary: emps)
  case Nil
  then show ?case by simp
next
  case (Cons row pre)
  then show ?case
    by (auto split: prod.splits option.splits)
qed

lemma clawback_row_same_on:
  assumes "\<And>k. g (new_employee\<lparr>sabon := k\<rparr>) = g new_employee"
    and "\<And>emp x. g (emp\<lparr>clawback_records := x\<rparr>) = g emp"
    and "clawback_row build row emps = (emps', r)"
  shows "same_on g emps emps'"
proof -
  let ?k = "py_str (row_get row ''sabeon'')"
  have a: "same_on g emps (ensure_employee ?k emps)"
    by (rule same_on_ensure) (rule assms(1))
  have b: "same_on g emps (update_employee ?k
             (\<lambda>emp. emp\<lparr>clawback_records := clawback_records emp @ [x]\<rparr>)
             (ensure_employee ?k emps))" for x
    by (rule same_on_trans [OF a]) (rule same_on_update, rule assms(2))
  from assms(3) a b show ?thesis
    by (auto simp: clawback_row_def Let_def same_on_refl split: if_splits sum.splits)
qed

lemma allowance_row_same_on:
  assumes "\<And>k. g (new_employee\<lparr>sabon := k\<rparr>) = g new_employee"
    and "\<And>emp x. g (emp\<lparr>additional_allowances := x\<rparr>) = g emp"
    and "allowance_row column category build row emps = (emps', r)"
  shows "same_on g emps emps'"
proof -
  let ?k = "py_str (row_get row column)"
  have a: "same_on g emps (ensure_employee ?k emps)"
    by (rule same_on_ensure) (rule assms(1))
  have b: "same_on g emps (update_employee ?k
             (\<lambda>emp. emp\<lparr>additional_allowances := dict_set category x (additional_allowances emp)\<rparr>)
             (ensure_employee ?k emps))" for x
    by (rule same_on_trans [OF a]) (rule same_on_update, rule assms(2))
  from assms(3) a b show ?thesis
    by (auto simp: allowance_row_def Let_def same_on_refl split: if_splits sum.splits)
qed

lemma append_retention_field:
  "(\<And>emp x. g (emp\<lparr>additional_allowances := x\<rparr>) = g emp) \<Longrightarrow>
   append_retention d emp = Inr emp' \<Longrightarrow> g emp' = g emp"
  by (auto simp: append_retention_def split: option.splits allowance.splits)

lemma same_on_replace:
  assumes "g emp' = g (employee_of emps k)"
  shows "same_on g emps (update_employee k (\<lambda>emp. emp') emps)"
  using assms
  by (auto simp: same_on_def employee_of_def map_of_update_employee split: option.splits)

lemma retention_row_same_on:
  assumes "\<And>k. g (new_employee\<lparr>sabon := k\<rparr>) = g new_employee"
    and "\<And>emp x. g (emp\<lparr>additional_allowances := x\<rparr>) = g emp"
    and "retention_row row emps = (emps', r)"
  shows "same_on g emps emps'"
proof -
  let ?k = "py_str (row_get row ''FC sabeon'')"
  let ?e1 = "ensure_employee ?k emps"
  have a: "same_on g emps ?e1"
    by (rule same_on_ensure) (rule assms(1))
  have b: "same_on g emps (update_employee ?k (\<lambda>emp. emp') ?e1)"
    if "append_retention d (employee_of ?e1 ?k) = Inr emp'" for d emp'
  proof -
    have "g emp' = g (employee_of ?e1 ?k)"
      using assms(2) that by (rule append_retention_field)
    then have "same_on g ?e1 (update_employee ?k (\<lambda>emp. emp') ?e1)"
      by (rule same_on_replace)
    with a show ?thesis by (rule same_on_trans)
  qed
  from assms(3) a b show ?thesis
    by (auto simp: retention_row_def Let_def same_on_refl split: if_splits sum.splits)
qed

lemma optional_body_cases:
  "body \<in> optional_row_bodies \<Longrightarrow>
   (\<exists>build. body = clawback_row build) \<or>
   (\<exists>column category build. body = allowance_row column category build) \<or>
   body = retention_row"
  unfolding optional_row_bodies_def by blast

lemma optional_body_same_on:
  assumes "body \<in> optional_row_bodies"
    and "\<And>k. g (new_employee\<lparr>sabon := k\<rparr>) = g new_employee"
    and "\<And>emp x. g (emp\<lparr>additional_allowances := x\<rparr>) = g emp"
    and "\<And>emp x. g (emp\<lparr>clawback_records := x\<rparr>) = g emp"
    and "body row emps = (emps', r)"
  shows "same_on g emps emps'"
  using optional_body_cases [OF assms(1)] assms(2-5)
    clawback_row_same_on [of g] allowance_row_same_on [of g] retention_row_same_on [of g]
  by metis

lemma optional_body_failed_row:
  assumes "body \<in> optional_row_bodies"
    and "\<And>k. g (new_employee\<lparr>sabon := k\<rparr>) = g new_employee"
    and "body row emps = (emps', Some e)"
  shows "same_on g emps emps'"
proof -
  have a: "same_on g emps (ensure_employee k emps)" for k
    by (rule same_on_ensure) (rule assms(2))
  from optional_body_cases [OF assms(1)] assms(3) a show ?thesis
    by (auto simp: clawback_row_def allowance_row_def retention_row_def Let_def same_on_refl
             split: if_splits sum.splits)
qed

lemma process_all_optional:
  "isl (process_all (xl\<lparr>allowances := a, clawbacks := c\<rparr>)) = isl (process_all xl)"
  by (simp add: process_all_def split: prod.splits option.splits)

text \<open>
  C3, as the code has it. When a row of an optional source raises, the loop over that
  source ends with the records as the rows before it and the start of the failing row left
  them; the rest of the source is skipped. The lists built from the required sources and
  the profiles are the same as before the source was read, and the failing row itself adds
  nothing to the clawbacks or to the allowances. Whether \<^verbatim>\<open>process_all\<close> completes does not
  depend on the optional sheets.
\<close>

theorem optional_source_failure:
  assumes "body \<in> optional_row_bodies"
    and "for_rows body pre emps = (emps1, None)"
    and "body bad emps1 = (emps2, Some e)"
  shows "for_rows body (pre @ bad # post) emps = (emps2, Some e)
    \<and> same_on commission_contracts emps emps2
    \<and> same_on override_records emps emps2
    \<and> same_on policy_contracts emps emps2
    \<and> same_on performance_records emps emps2
    \<and> same_on employee_profile emps emps2
    \<and> same_on clawback_records emps1 emps2
    \<and> same_on additional_allowances emps1 emps2
    \<and> isl (process_all (xl\<lparr>allowances := a, clawbacks := c\<rparr>)) = isl (process_all xl)
    \<and> for_rows body [] emps = (emps, None)"
proof -
  have run: "for_rows body (pre @ bad # post) emps = (emps2, Some e)"
    using assms(2,3) by (rule for_rows_failure)
  have keep: "same_on g emps emps2"
    if "\<And>k. g (new_employee\<lparr>sabon := k\<rparr>) = g new_employee"
      and "\<And>emp x. g (emp\<lparr>additional_allowances := x\<rparr>) = g emp"
      and "\<And>emp x. g (emp\<lparr>clawback_records := x\<rparr>) = g emp" for g :: "employee \<Rightarrow> 'b"
  proof -
    have "same_on g emps emps1"
      using optional_body_same_on [OF assms(1) that] assms(2) by (rule for_rows_same_on)
    moreover have "same_on g emps1 emps2"
      using assms(1) that assms(3) by (rule optional_body_same_on)
    ultimately show ?thesis by (rule same_on_trans)
  qed
  have c1: "same_on commission_contracts emps emps2" by (rule keep) (simp_all add: new_employee_def)
  have c2: "same_on override_records emps emps2" by (rule keep) (simp_all add: new_employee_def)
  have c3: "same_on policy_contracts emps emps2" by (rule keep) (simp_all add: new_employee_def)
  have c4: "same_on performance_records emps emps2" by (rule keep) (simp_all add: new_employee_def)
  have c5: "same_on employee_profile emps emps2" by (rule keep) (simp_all add: new_employee_def)
  have c6: "same_on clawback_records emps1 emps2"
    using assms(1) _ assms(3) by (rule optional_body_failed_row) (simp add: new_employee_def)
  have c7: "same_on additional_allowances emps1 emps2"
    using assms(1) _ assms(3) by (rule optional_body_failed_row) (simp add: new_employee_def)
  have c8: "for_rows body [] emps = (emps, None)" by simp
  from run c1 c2 c3 c4 c5 c6 c7 c8 process_all_optional show ?thesis by blast
qed

lemma snd_clawback_row:
  "snd (clawback_row build row emps)
     = (if in_columns ''sabeon'' row \<and> notna (row_get row ''sabeon'')
        then (case build row of Inl e \<Rightarrow> Some e | Inr d \<Rightarrow> None) else None)"
  by (simp add: clawback_row_def Let_def split: sum.splits)

lemma example_clawback_bad:
  "sichaek2jigeupbun_dict (example_clawback_row (CStr ''abc'')) = Inl ValueError"
  by (simp add: sichaek2jigeupbun_dict_def example_clawback_row_def float_or0_def
        row_get_or0_def py_or_def float_of_text_def strip_def digit_val_def)

lemma example_clawback_good:
  "\<exists>d. sichaek2jigeupbun_dict (example_clawback_row (CInt 5000)) = Inr d"
  by (simp add: sichaek2jigeupbun_dict_def example_clawback_row_def float_or0_def
        row_get_or0_def py_or_def)

theorem optional_source_failure_witness:
  "clawback_row sichaek2jigeupbun_dict \<in> optional_row_bodies
   \<and> for_rows (clawback_row sichaek2jigeupbun_dict) [example_clawback_row (CInt 5000)] []
       = (fst (for_rows (clawback_row sichaek2jigeupbun_dict)
                 [example_clawback_row (CInt 5000)] []), None)
   \<and> clawback_row sichaek2jigeupbun_dict (example_clawback_row (CStr ''abc''))
        (fst (for_rows (clawback_row sichaek2jigeupbun_dict)
                [example_clawback_row (CInt 5000)] []))
       = (fst (clawback_row sichaek2jigeupbun_dict (example_clawback_row (CStr ''abc''))
                 (fst (for_rows (clawback_row sichaek2jigeupbun_dict)
                         [example_clawback_row (CInt 5000)] []))), Some ValueError)
   \<and> for_rows (clawback_row sichaek2jigeupbun_dict)
        ([example_clawback_row (CInt 5000)] @ example_clawback_row (CStr ''abc'')
           # [example_clawback_row (CInt 7000)]) []
       = (fst (clawback_row sichaek2jigeupbun_dict (example_clawback_row (CStr ''abc''))
                 (fst (for_rows (clawback_row sichaek2jigeupbun_dict)
                         [example_clawback_row (CInt 5000)] []))), Some ValueError)
   \<and> same_on commission_contracts []
        (fst (clawback_row sichaek2jigeupbun_dict (example_clawback_row (CStr ''abc''))
                 (fst (for_rows (clawback_row sichaek2jigeupbun_dict)
                         [example_clawback_row (CInt 5000)] []))))
   \<and> isl (process_all (empty_sheets\<lparr>allowances := allowances empty_sheets,
                                      clawbacks := example_clawback_sheets\<rparr>))
       = isl (process_all empty_sheets)"
proof -
  let ?body = "clawback_row sichaek2jigeupbun_dict"
  let ?e1 = "fst (for_rows ?body [example_clawback_row (CInt 5000)] [])"
  let ?bad = "example_clawback_row (CStr ''abc'')"
  have h1: "?body \<in> optional_row_bodies" by (simp add: optional_row_bodies_def)
  have "snd (?body (example_clawback_row (CInt 5000)) []) = None"
    using example_clawback_good
    by (auto simp: snd_clawback_row)
  then obtain e1 where "?body (example_clawback_row (CInt 5000)) [] = (e1, None)"
    by (cases "?body (example_clawback_row (CInt 5000)) []") simp
  then have h2: "for_rows ?body [example_clawback_row (CInt 5000)] [] = (?e1, None)"
    by simp
  have "snd (?body ?bad ?e1) = Some ValueError"
    by (simp add: snd_clawback_row example_clawback_bad)
       (simp add: example_clawback_row_def in_columns_def row_get_def)
  then have h3: "?body ?bad ?e1 = (fst (?body ?bad ?e1), Some ValueError)"
    by (simp add: prod_eq_iff)
  from optional_source_failure [OF h1 h2 h3, where post = "[example_clawback_row (CInt 7000)]"
         and xl = empty_sheets and a = "allowances empty_sheets"
         and c = example_clawback_sheets] h1 h2 h3
  show ?thesis by blast
qed

text \<open>
  C3, as the spec has it, fails: the first clawback sheet raises at its second row, and the
  record of employee 1001 keeps the entry of the first row, so the category of the failed
  source is partially populated.
\<close>

theorem failed_source_partially_populated:
  "snd (for_rows (clawback_row sichaek2jigeupbun_dict)
          (hwansu_sichaek2jigeupbun_wanryo example_clawback_sheets) []) = Some ValueError
   \<and> map cb_hwansugeumaek (clawback_records
        (employee_of (process_clawback_records example_clawback_sheets []) ''1001'')) = [5000]"
  by (simp add: process_clawback_records_def example_clawback_sheets_def clawback_row_def
        sichaek2jigeupbun_dict_def example_clawback_row_def float_or0_def row_get_or0_def
        row_get_def in_columns_def py_or_def float_of_text_def strip_def digit_val_def
        str_if_notna_def Let_def ensure_employee_def has_employee_def new_employee_def
        clawback_of_dict_def dict_get_def num_of_def other_keys_def employee_of_def
        str_int_def str_nat.simps)

section \<open>The allowances\<close>

lemma employee_of_update:
  "employee_of (update_employee k f emps) k'
     = (if k' = k \<and> has_employee k emps then f (employee_of emps k) else employee_of emps k')"
  by (auto simp: employee_of_def map_of_update_employee has_employee_map_of split: option.splits)

lemma allowances_employee_of_ensure:
  "additional_allowances (employee_of (ensure_employee k emps) k')
     = additional_allowances (employee_of emps k')"
  by (simp add: employee_of_def map_of_ensure_employee new_employee_def)

lemma rows_for_Cons:
  "rows_for column k (row # rows)
     = (if in_columns column row \<and> notna (row_get row column) \<and> py_str (row_get row column) = k
        then row # rows_for column k rows else rows_for column k rows)"
  by (simp add: rows_for_def)

lemma allowance_row_effect:
  assumes "allowance_row column category build row emps = (emps', None)"
  shows "additional_allowances (employee_of emps' k)
     = (if rows_for column k [row] = [] then additional_allowances (employee_of emps k)
        else dict_set category (Single (single_of_dict (projr (build row))))
               (additional_allowances (employee_of emps k)))"
  using assms
  by (auto simp: allowance_row_def Let_def rows_for_def employee_of_update
        allowances_employee_of_ensure has_employee_ensure split: if_splits sum.splits)

lemma allowance_rows_effect:
  "for_rows (allowance_row column category build) rows emps = (emps', None) \<Longrightarrow>
   map_of (additional_allowances (employee_of emps' k)) category
     = (if rows_for column k rows = []
        then map_of (additional_allowances (employee_of emps k)) category
        else Some (Single (single_of_dict (projr (build (last (rows_for column k rows)))))))"
proof (induction rows arbitrary: emps)
  case Nil
  then show ?case by (simp add: rows_for_def)
next
  case (Cons row rows)
  from Cons.prems obtain e1 where
    r: "allowance_row column category build row emps = (e1, None)"
    and rs: "for_rows (allowance_row column category build) rows e1 = (emps', None)"
    by (auto split: prod.splits option.splits)
  note ih = Cons.IH [OF rs]
  note st = allowance_row_effect [OF r, of k]
  show ?case
    unfolding ih st
    by (auto simp: rows_for_Cons map_of_dict_set rows_for_def)
qed

lemma retention_row_effect:
  assumes "retention_row row emps = (emps', None)"
  shows "map_of (additional_allowances (employee_of emps' k)) ''13hoechayuji''
     = (if rows_for ''FC sabeon'' k [row] = []
        then map_of (additional_allowances (employee_of emps k)) ''13hoechayuji''
        else Some (Many ((case map_of (additional_allowances (employee_of emps k)) ''13hoechayuji''
                            of Some (Many xs) \<Rightarrow> xs | _ \<Rightarrow> [])
                         @ [projr (retention_of_row row)])))"
  using assms
  by (auto simp: retention_row_def Let_def rows_for_def employee_of_update append_retention_def
        allowances_employee_of_ensure has_employee_ensure map_of_dict_set
        split: if_splits sum.splits option.splits allowance.splits)

lemma retention_rows_effect:
  "for_rows retention_row rows emps = (emps', None) \<Longrightarrow>
   map_of (additional_allowances (employee_of emps' k)) ''13hoechayuji''
     = (if rows_for ''FC sabeon'' k rows = []
        then map_of (additional_allowances (employee_of emps k)) ''13hoechayuji''
        else Some (Many ((case map_of (additional_allowances (employee_of emps k)) ''13hoechayuji''
                            of Some (Many xs) \<Rightarrow> xs | _ \<Rightarrow> [])
                         @ map (\<lambda>row. projr (retention_of_row row))
                             (rows_for ''FC sabeon'' k rows))))"
proof (induction rows arbitrary: emps)
  case Nil
  then show ?case by (simp add: rows_for_def)
next
  case (Cons row rows)
  from Cons.prems obtain e1 where
    r: "retention_row row emps = (e1, None)"
    and rs: "for_rows retention_row rows e1 = (emps', None)"
    by (auto split: prod.splits option.splits)
  note ih = Cons.IH [OF rs]
  note st = retention_row_effect [OF r, of k]
  show ?case
    unfolding ih st
    by (auto simp: rows_for_Cons rows_for_def split: option.splits allowance.splits)
qed

lemma snd_allowance_row:
  "snd (allowance_row column category build row emps)
     = (if in_columns column row \<and> notna (row_get row column)
        then (case build row of Inl e \<Rightarrow> Some e | Inr d \<Rightarrow> None) else None)"
  by (simp add: allowance_row_def Let_def split: sum.splits)

lemma for_rows_two:
  assumes "snd (body r1 emps) = None" and "\<And>e. snd (body r2 e) = None"
  shows "for_rows body [r1, r2] emps = (fst (for_rows body [r1, r2] emps), None)"
proof -
  obtain a where a: "body r1 emps = (a, None)"
    using assms(1) by (cases "body r1 emps") simp
  obtain b where b: "body r2 a = (b, None)"
    using assms(2) [of a] by (cases "body r2 a") simp
  show ?thesis by (simp add: a b)
qed

text \<open>
  C9. After a sheet with one amount per employee has been read without an exception, the
  category of an employee named by some row holds one structure with an amount, built from
  the last such row; an employee named by no row keeps what the category held. After the
  retention sheet has been read without an exception, the category \<open>13hoechayuji\<close> of an
  employee named by some row holds a list: the entries it held before, followed by one
  entry for each such row, in the order of the rows.
\<close>

theorem allowance_single_or_list:
  "(for_rows (allowance_row column category build) rows emps = (emps1, None) \<longrightarrow>
      map_of (additional_allowances (employee_of emps1 k)) category
        = (if rows_for column k rows = []
           then map_of (additional_allowances (employee_of emps k)) category
           else Some (Single (single_of_dict (projr (build (last (rows_for column k rows))))))))
   \<and> (for_rows retention_row rows emps = (emps2, None) \<longrightarrow>
      map_of (additional_allowances (employee_of emps2 k)) ''13hoechayuji''
        = (if rows_for ''FC sabeon'' k rows = []
           then map_of (additional_allowances (employee_of emps k)) ''13hoechayuji''
           else Some (Many ((case map_of (additional_allowances (employee_of emps k))
                                   ''13hoechayuji''
                               of Some (Many xs) \<Rightarrow> xs | _ \<Rightarrow> [])
                            @ map (\<lambda>row. projr (retention_of_row row))
                                (rows_for ''FC sabeon'' k rows)))))"
  using allowance_rows_effect retention_rows_effect by blast

lemma example_retention_rows:
  "snd (for_rows retention_row
          [example_allowance_row (CInt 5000), example_allowance_row (CInt 6000)] []) = None"
  by (simp add: retention_row_def Let_def retention_of_row_def example_allowance_row_def
        float_or0_def int_or0_def row_get_or0_def row_get_def in_columns_def py_or_def
        append_retention_def str_if_notna_def ensure_employee_def has_employee_def
        employee_of_def new_employee_def str_int_def str_nat.simps)

theorem allowance_single_or_list_witness:
  "for_rows (allowance_row ''FC sabeon'' ''sichaek2_jisasichaek'' sichaek2_dict)
      [example_allowance_row (CInt 5000), example_allowance_row (CInt 6000)] []
     = (fst (for_rows (allowance_row ''FC sabeon'' ''sichaek2_jisasichaek'' sichaek2_dict)
               [example_allowance_row (CInt 5000), example_allowance_row (CInt 6000)] []), None)
   \<and> map_of (additional_allowances (employee_of
          (fst (for_rows (allowance_row ''FC sabeon'' ''sichaek2_jisasichaek'' sichaek2_dict)
                  [example_allowance_row (CInt 5000), example_allowance_row (CInt 6000)] []))
          ''1001'')) ''sichaek2_jisasichaek''
       = Some (Single \<lparr>a_geumaek = 6000, a_rest = [(''bigo'', CNone)]\<rparr>)
   \<and> for_rows retention_row
        [example_allowance_row (CInt 5000), example_allowance_row (CInt 6000)] []
       = (fst (for_rows retention_row
                 [example_allowance_row (CInt 5000), example_allowance_row (CInt 6000)] []), None)
   \<and> map_of (additional_allowances (employee_of
          (fst (for_rows retention_row
                  [example_allowance_row (CInt 5000), example_allowance_row (CInt 6000)] []))
          ''1001'')) ''13hoechayuji''
       = Some (Many [projr (retention_of_row (example_allowance_row (CInt 5000))),
                     projr (retention_of_row (example_allowance_row (CInt 6000)))])"
proof -
  let ?rows = "[example_allowance_row (CInt 5000), example_allowance_row (CInt 6000)]"
  let ?single = "allowance_row ''FC sabeon'' ''sichaek2_jisasichaek'' sichaek2_dict"
  have ok: "snd (?single (example_allowance_row (CInt n)) e) = None" for n e
    by (simp add: snd_allowance_row sichaek2_dict_def example_allowance_row_def float_or0_def
          row_get_or0_def py_or_def)
  have h1: "for_rows ?single ?rows [] = (fst (for_rows ?single ?rows []), None)"
    by (rule for_rows_two) (rule ok)+
  have h2: "for_rows retention_row ?rows [] = (fst (for_rows retention_row ?rows []), None)"
    using example_retention_rows by (simp add: prod_eq_iff)
  have rf: "rows_for ''FC sabeon'' ''1001'' ?rows = ?rows"
    by (simp add: rows_for_def example_allowance_row_def in_columns_def row_get_def
          str_int_def str_nat.simps)
  have sd: "single_of_dict (projr (sichaek2_dict (example_allowance_row (CInt 6000))))
              = \<lparr>a_geumaek = 6000, a_rest = [(''bigo'', CNone)]\<rparr>"
    by (simp add: single_of_dict_def sichaek2_dict_def example_allowance_row_def float_or0_def
          row_get_or0_def row_get_def py_or_def dict_get_def num_of_def other_keys_def)
  have e0: "additional_allowances (employee_of [] ''1001'') = []"
    by (simp add: employee_of_def new_employee_def)
  from allowance_single_or_list [of "''FC sabeon''" "''sichaek2_jisasichaek''" sichaek2_dict
         ?rows "[]" "fst (for_rows ?single ?rows [])" "''1001''"
         "fst (for_rows retention_row ?rows [])"] h1 h2
  show ?thesis
    by (simp add: rf sd e0)
qed

section \<open>The text of a record\<close>







section \<open>The documents\<close>

lemma keys_ensure_employee:
  "map fst (ensure_employee k emps)
     = (if has_employee k emps then map fst emps else map fst emps @ [k])"
  by (simp add: ensure_employee_def)

lemma distinct_ensure:
  "distinct (map fst emps) \<Longrightarrow> distinct (map fst (ensure_employee k emps))"
  by (auto simp: keys_ensure_employee has_employee_def)

lemma for_rows_invariant:
  assumes "\<And>row emps. P emps \<Longrightarrow> P (fst (body row emps))"
  shows "P emps \<Longrightarrow> P (fst (for_rows body rows emps))"
proof (induction rows arbitrary: emps)
  case Nil
  then show ?case by simp
next
  case (Cons row rows)
  from Cons.prems have p: "P (fst (body row emps))" by (rule assms)
  obtain e1 r1 where b: "body row emps = (e1, r1)" by (cases "body row emps")
  with p have p1: "P e1" by simp
  show ?case
  proof (cases r1)
    case None
    with b Cons.IH [OF p1] show ?thesis by simp
  next
    case (Some err)
    with b p1 show ?thesis by simp
  qed
qed

lemma distinct_individual_statement_row:
  "distinct (map fst emps) \<Longrightarrow> distinct (map fst (fst (individual_statement_row row emps)))"
  by (auto simp: individual_statement_row_def Let_def keys_update_employee has_employee_def
           split: sum.splits)

lemma distinct_commission_row:
  "distinct (map fst emps) \<Longrightarrow> distinct (map fst (fst (commission_row row emps)))"
  by (auto simp: commission_row_def Let_def keys_update_employee distinct_ensure
           split: sum.splits)

lemma distinct_override_row:
  "distinct (map fst emps) \<Longrightarrow> distinct (map fst (fst (override_row row emps)))"
  by (auto simp: override_row_def Let_def keys_update_employee distinct_ensure
           split: sum.splits)

lemma distinct_policy_row:
  "distinct (map fst emps) \<Longrightarrow> distinct (map fst (fst (policy_row row emps)))"
  by (auto simp: policy_row_def Let_def keys_update_employee distinct_ensure
           split: sum.splits)

lemma distinct_perf_field:
  "distinct (map fst emps) \<Longrightarrow> distinct (map fst (perf_field fr row emps))"
  by (auto simp: perf_field_def Let_def keys_update_employee distinct_ensure split: prod.splits)

lemma distinct_perf_row:
  "distinct (map fst emps) \<Longrightarrow> distinct (map fst (fst (perf_row row emps)))"
  by (simp add: perf_row_def distinct_perf_field)

lemma distinct_allowance_row:
  "distinct (map fst emps) \<Longrightarrow>
   distinct (map fst (fst (allowance_row column category build row emps)))"
  by (auto simp: allowance_row_def Let_def keys_update_employee distinct_ensure
           split: sum.splits)

lemma distinct_retention_row:
  "distinct (map fst emps) \<Longrightarrow> distinct (map fst (fst (retention_row row emps)))"
  by (auto simp: retention_row_def Let_def keys_update_employee distinct_ensure
           split: sum.splits)

lemma distinct_clawback_row:
  "distinct (map fst emps) \<Longrightarrow> distinct (map fst (fst (clawback_row build row emps)))"
  by (auto simp: clawback_row_def Let_def keys_update_employee distinct_ensure
           split: sum.splits)

lemma keys_calculate: "map fst (calculate_aggregated_financials emps) = map fst emps"
  by (induction emps) (auto simp: calculate_aggregated_financials_def)

lemma distinct_optional_steps:
  assumes "distinct (map fst emps)"
  shows "distinct (map fst (process_clawback_records cs
           (process_additional_allowances al (process_performance_records pf emps))))"
proof -
  let ?P = "\<lambda>emps. distinct (map fst emps)"
  have 1: "?P (process_performance_records pf emps)"
    unfolding process_performance_records_def
    using assms by (rule for_rows_invariant [where P = ?P, rotated]) (rule distinct_perf_row)
  have a: "?P e \<Longrightarrow> ?P (fst (for_rows (allowance_row c g b) rows e))" for e c g b rows
    by (rule for_rows_invariant [where P = ?P, rotated]) (auto intro: distinct_allowance_row)
  have r: "?P e \<Longrightarrow> ?P (fst (for_rows retention_row rows e))" for e rows
    by (rule for_rows_invariant [where P = ?P, rotated]) (auto intro: distinct_retention_row)
  have c: "?P e \<Longrightarrow> ?P (fst (for_rows (clawback_row b) rows e))" for e b rows
    by (rule for_rows_invariant [where P = ?P, rotated]) (auto intro: distinct_clawback_row)
  have 2: "?P (process_additional_allowances al (process_performance_records pf emps))"
    unfolding process_additional_allowances_def Let_def
    by (intro a r 1)
  show ?thesis
    unfolding process_clawback_records_def Let_def
    by (intro c 2)
qed

lemma distinct_process_all:
  assumes "process_all xl = Inr emps"
  shows "distinct (map fst emps)"
proof -
  let ?P = "\<lambda>emps. distinct (map fst emps)"
  let ?r1 = "process_individual_statements (inbyeolmyeongse xl) []"
  let ?r2 = "process_commission_contracts (geonbyeolsusuryo xl) (fst ?r1)"
  let ?r3 = "process_override_records (geonbyeolOR xl) (fst ?r2)"
  let ?r4 = "process_policy_contracts (sichaekgeonbyeol xl) (fst ?r3)"
  have 1: "?P (fst ?r1)"
    unfolding process_individual_statements_def
    by (rule for_rows_invariant [where P = ?P]) (auto intro: distinct_individual_statement_row)
  have 2: "?P (fst ?r2)"
    unfolding process_commission_contracts_def
    using 1 by (rule for_rows_invariant [where P = ?P, rotated]) (rule distinct_commission_row)
  have 3: "?P (fst ?r3)"
    unfolding process_override_records_def
    using 2 by (rule for_rows_invariant [where P = ?P, rotated]) (rule distinct_override_row)
  have 4: "?P (fst ?r4)"
    unfolding process_policy_contracts_def
    using 3 by (rule for_rows_invariant [where P = ?P, rotated]) (rule distinct_policy_row)
  from assms have "emps = calculate_aggregated_financials
      (process_clawback_records (clawbacks xl)
         (process_additional_allowances (allowances xl)
            (process_performance_records (eopjeok xl) (fst ?r4))))"
    by (auto simp: process_all_def split: prod.splits option.splits)
  with distinct_optional_steps [OF 4] show ?thesis
    by (simp add: keys_calculate)
qed

lemma metadata_scalar:
  "v \<in> snd ` set (metadata (profile_document k emp)) \<Longrightarrow> \<exists>c. v = Scalar c"
  by (auto simp: profile_document_def)

text \<open>
  C8. The records that \<^verbatim>\<open>process_all\<close> returns have distinct keys, and the documents
  generated from them correspond to them one to one, in order: the document of a record
  has the type \<open>employee_profile\<close>, the key followed by \<open>_profile\<close> as its id, the key as
  the metadata entry \<open>sabeon\<close>, and only scalar values in its metadata.
\<close>

theorem one_profile_document_per_employee:
  assumes "process_all xl = Inr emps"
  shows "distinct (map fst emps)
    \<and> length (generate_employee_centric_documents emps) = length emps
    \<and> (\<forall>i < length emps.
          doc_type (generate_employee_centric_documents emps ! i) = ''employee_profile''
        \<and> doc_id (generate_employee_centric_documents emps ! i) = fst (emps ! i) @ ''_profile''
        \<and> map_of (metadata (generate_employee_centric_documents emps ! i)) ''sabeon''
            = Some (Scalar (CStr (fst (emps ! i))))
        \<and> (\<forall>v \<in> snd ` set (metadata (generate_employee_centric_documents emps ! i)).
              \<exists>c. v = Scalar c))"
proof -
  have d: "distinct (map fst emps)" using assms by (rule distinct_process_all)
  have l: "length (generate_employee_centric_documents emps) = length emps"
    by (simp add: generate_employee_centric_documents_def)
  have n: "generate_employee_centric_documents emps ! i
             = profile_document (fst (emps ! i)) (snd (emps ! i))" if "i < length emps" for i
    using that by (simp add: generate_employee_centric_documents_def case_prod_unfold)
  have p: "doc_type (profile_document k emp) = ''employee_profile''
         \<and> doc_id (profile_document k emp) = k @ ''_profile''
         \<and> map_of (metadata (profile_document k emp)) ''sabeon'' = Some (Scalar (CStr k))"
    for k emp
    by (simp add: profile_document_def)
  from d l n p metadata_scalar show ?thesis
    by auto
qed

lemma example_sheets_keys:
  "map_sum id (map fst) (process_all example_sheets) = Inr [''12345'']"
  by (simp add: process_all_def process_individual_statements_def
        process_commission_contracts_def process_override_records_def
        process_policy_contracts_def process_performance_records_def
        process_additional_allowances_def process_clawback_records_def
        example_sheets_def empty_sheets_def example_roster_row_def
        individual_statement_row_def row_item_def summary_of_row_def float_or0_real_def
        row_get_or0_def py_or_def has_employee_def keys_update_employee keys_calculate
        str_int_def str_nat.simps Let_def)

theorem one_profile_document_per_employee_witness:
  "process_all example_sheets = Inr (projr (process_all example_sheets))
   \<and> distinct (map fst (projr (process_all example_sheets)))
   \<and> length (generate_employee_centric_documents (projr (process_all example_sheets)))
       = length (projr (process_all example_sheets))
   \<and> map fst (projr (process_all example_sheets)) = [''12345'']
   \<and> doc_id (generate_employee_centric_documents (projr (process_all example_sheets)) ! 0)
       = ''12345_profile''
   \<and> map_of (metadata (generate_employee_centric_documents
                          (projr (process_all example_sheets)) ! 0)) ''sabeon''
       = Some (Scalar (CStr ''12345''))"
proof -
  from example_sheets_keys obtain emps where
    e: "process_all example_sheets = Inr emps" and k: "map fst emps = [''12345'']"
    by (cases "process_all example_sheets") auto
  from k have l: "0 < length emps" and f: "fst (emps ! 0) = ''12345''"
    by (cases emps; simp)+
  from one_profile_document_per_employee [OF e] e k l f
  show ?thesis by auto
qed

end
